theory Spec2Isabelle
  imports Main "HOL-Library.Char_ord" "HOL-Library.List_Lexorder" "HOL-Library.AList"
    "HOL-Library.Multiset"
begin

section \<open>TPCreator (mqe/tpcreator.py): data model\<close>

text \<open>
  Python exceptions that the modelled functions can raise. A function that can raise
  returns \<open>error + 'a\<close>, with \<open>Inl\<close> for the raised exception.
\<close>

datatype error = KeyError | TypeError | AttributeError | AssertionError
  | LayoutModificationImpossible

text \<open>
  Tags are Python strings. \<open>str.startswith\<close> and the \<open>in\<close> test on a list are the only
  operations the matching uses; comparison (for \<open>list.sort\<close>) is the lexicographic order
  of the character codes, which is the order of \<open>char list\<close> here.
\<close>

definition TPCREATOR_SEPARATOR :: char where
  "TPCREATOR_SEPARATOR = CHR '':''"

definition startswith :: "string \<Rightarrow> string \<Rightarrow> bool" where
  "startswith s p = (take (length p) s = p)"

text \<open>
  Modelled from the spec: \<open>util.uniq_sameorder(seq, key)\<close> is not part of the source
  file; the spec describes it as deduplication "preserving first-seen order", by a key
  when one is given. \<open>seen\<close> is the collection of keys met so far.
\<close>

fun uniq_loop :: "('a \<Rightarrow> 'k) \<Rightarrow> 'k list \<Rightarrow> 'a list \<Rightarrow> 'a list" where
  "uniq_loop key seen [] = []"
| "uniq_loop key seen (x # xs) =
     (if key x \<in> set seen then uniq_loop key seen xs
      else x # uniq_loop key (key x # seen) xs)"

definition uniq_sameorder_key :: "('a \<Rightarrow> 'k) \<Rightarrow> 'a list \<Rightarrow> 'a list" where
  "uniq_sameorder_key key xs = uniq_loop key [] xs"

definition uniq_sameorder :: "'a list \<Rightarrow> 'a list" where
  "uniq_sameorder xs = uniq_sameorder_key (\<lambda>x. x) xs"

text \<open>An entry of a \<open>tpcreator_uispec\<close>: the dictionary \<open>{'tag': ..., 'prefix': ...}\<close>.\<close>

record uispec_entry =
  tag :: string
  prefix :: string

text \<open>
  A \<open>tpcreator_spec\<close> is a Python dictionary from key names to lists of strings, kept as
  an association list; a missing key raises \<open>KeyError\<close>. The value \<open>None\<close> of the option
  is Python's \<open>None\<close>. Both \<open>None\<close> and the empty dictionary are falsy.
\<close>

type_synonym tpcreator_spec = "(string \<times> string list) list"

definition spec_is_empty :: "tpcreator_spec option \<Rightarrow> bool" where
  "spec_is_empty spec = (case spec of None \<Rightarrow> True | Some d \<Rightarrow> d = [])"

section \<open>Utilities\<close>

definition tpcreator_prefix :: "string \<Rightarrow> string" where
  "tpcreator_prefix t = takeWhile (\<lambda>c. c \<noteq> TPCREATOR_SEPARATOR) t @ [TPCREATOR_SEPARATOR]"

definition suggested_tpcreator_uispec :: "string list \<Rightarrow> uispec_entry list" where
  "suggested_tpcreator_uispec tags =
     map (\<lambda>t. if TPCREATOR_SEPARATOR \<in> set t
               then \<lparr>tag = t, prefix = tpcreator_prefix t\<rparr>
               else \<lparr>tag = t, prefix = t\<rparr>) tags"

definition suggested_tpcreator_prefixes :: "string \<Rightarrow> string list" where
  "suggested_tpcreator_prefixes t =
     [''''] @ (if TPCREATOR_SEPARATOR \<in> set t then [tpcreator_prefix t] else []) @ [t]"

definition tpcreator_spec_from_tpcreator_uispec :: "uispec_entry list \<Rightarrow> tpcreator_spec" where
  "tpcreator_spec_from_tpcreator_uispec tpcreator_uispec =
     [(''full_tags'', map tag (filter (\<lambda>d. tag d = prefix d) tpcreator_uispec)),
      (''prefixes'', sort_key length
         (uniq_sameorder (map prefix (filter (\<lambda>d. tag d \<noteq> prefix d) tpcreator_uispec))))]"

text \<open>The first loop of \<open>tags_matching_tpcreator_spec\<close>; \<open>None\<close> is the early return.\<close>

fun full_tags_loop :: "string list \<Rightarrow> string list \<Rightarrow> string list \<Rightarrow> string list option" where
  "full_tags_loop [] tags res = Some res"
| "full_tags_loop (full_tag # rest) tags res =
     (if full_tag \<notin> set tags then None
      else full_tags_loop rest tags (res @ [full_tag]))"

text \<open>The inner loop over the tags, for one prefix: the state is \<open>(res, prefix_matched)\<close>.\<close>

fun prefix_tags_loop :: "string \<Rightarrow> string list \<Rightarrow> string list \<times> bool \<Rightarrow> string list \<times> bool" where
  "prefix_tags_loop p [] st = st"
| "prefix_tags_loop p (t # ts) (res, prefix_matched) =
     (if startswith t p then prefix_tags_loop p ts (res @ [t], True)
      else prefix_tags_loop p ts (res, prefix_matched))"

fun prefixes_loop :: "string list \<Rightarrow> string list \<Rightarrow> string list \<Rightarrow> string list option" where
  "prefixes_loop [] tags res = Some res"
| "prefixes_loop (p # ps) tags res =
     (case prefix_tags_loop p tags (res, False) of
        (res', prefix_matched) \<Rightarrow>
          if \<not> prefix_matched then None else prefixes_loop ps tags res')"

definition tags_matching_tpcreator_spec ::
  "tpcreator_spec option \<Rightarrow> string list \<Rightarrow> error + string list option" where
  "tags_matching_tpcreator_spec tpcreator_spec tags =
     (if spec_is_empty tpcreator_spec then Inr None
      else if tags = [] then Inr None
      else case map_of (the tpcreator_spec) ''full_tags'' of
        None \<Rightarrow> Inl KeyError
      | Some full_tags \<Rightarrow>
         (case full_tags_loop full_tags tags [] of
            None \<Rightarrow> Inr None
          | Some res \<Rightarrow>
             (case map_of (the tpcreator_spec) ''prefixes'' of
                None \<Rightarrow> Inl KeyError
              | Some prefixes \<Rightarrow>
                 (case prefixes_loop prefixes tags res of
                    None \<Rightarrow> Inr None
                  | Some res' \<Rightarrow> Inr (Some (sort (uniq_sameorder res')))))))"

section \<open>Tiles and tile options\<close>

text \<open>
  The values held in \<open>tile_options\<close>, a JSON-like Python dictionary. Tile ids are UUIDs,
  kept as natural numbers. A deep copy of a value is the value itself.
\<close>

datatype pyval = PNone | PBool bool | PInt int | PStr string | PUuid nat
  | PList "pyval list" | PDict "(string \<times> pyval) list"

type_synonym pydict = "(string \<times> pyval) list"

text \<open>Python's truth value of an object, as \<open>if v:\<close> tests it.\<close>

fun truthy :: "pyval \<Rightarrow> bool" where
  "truthy PNone = False"
| "truthy (PBool b) = b"
| "truthy (PInt i) = (i \<noteq> 0)"
| "truthy (PStr s) = (s \<noteq> [])"
| "truthy (PUuid u) = True"
| "truthy (PList xs) = (xs \<noteq> [])"
| "truthy (PDict d) = (d \<noteq> [])"

text \<open>\<open>d.get(k)\<close>, \<open>d[k] = v\<close>, \<open>d.pop(k, None)\<close> and \<open>k in d\<close> on a dictionary.\<close>

definition dict_get :: "pydict \<Rightarrow> string \<Rightarrow> pyval" where
  "dict_get d k = (case map_of d k of None \<Rightarrow> PNone | Some v \<Rightarrow> v)"

definition dict_set :: "pydict \<Rightarrow> string \<Rightarrow> pyval \<Rightarrow> pydict" where
  "dict_set d k v = AList.update k v d"

definition dict_pop :: "pydict \<Rightarrow> string \<Rightarrow> pydict" where
  "dict_pop d k = AList.delete k d"

definition has_key :: "pydict \<Rightarrow> string \<Rightarrow> bool" where
  "has_key d k = (map_of d k \<noteq> None)"

definition bind_err :: "error + 'a \<Rightarrow> ('a \<Rightarrow> error + 'b) \<Rightarrow> error + 'b" where
  "bind_err r f = (case r of Inl e \<Rightarrow> Inl e | Inr x \<Rightarrow> f x)"

text \<open>
  \<open>str.replace(old, new)\<close> replaces the non-overlapping occurrences of \<open>old\<close> from the
  left; with an empty \<open>old\<close> it puts \<open>new\<close> before every character and at the end.
  \<open>str.strip()\<close> removes the ASCII whitespace at both ends. \<open>sub in s\<close> on strings is
  the substring test.
\<close>

fun replace_loop :: "string \<Rightarrow> string \<Rightarrow> string \<Rightarrow> string" where
  "replace_loop [] old new = []"
| "replace_loop (c # cs) old new =
     (if startswith (c # cs) old
      then new @ replace_loop (drop (length old - 1) cs) old new
      else c # replace_loop cs old new)"

definition py_replace :: "string \<Rightarrow> string \<Rightarrow> string \<Rightarrow> string" where
  "py_replace s old new =
     (if old = [] then new @ concat (map (\<lambda>c. c # new) s) else replace_loop s old new)"

definition is_space :: "char \<Rightarrow> bool" where
  "is_space c = (c \<in> {CHR '' '', CHR 0x09, CHR 0x0A, CHR 0x0B, CHR 0x0C, CHR 0x0D})"

definition py_strip :: "string \<Rightarrow> string" where
  "py_strip s = rev (dropWhile is_space (rev (dropWhile is_space s)))"

definition is_substring :: "string \<Rightarrow> string \<Rightarrow> bool" where
  "is_substring sub s = list_ex (\<lambda>i. startswith (drop i s) sub) [0 ..< Suc (length s)]"

text \<open>
  \<open>title.replace(postfix, '').strip()\<close> on a value of \<open>tile_options\<close>: only a string has
  the method. \<open>postfix in title\<close>: substring test on a string, membership in a list, key
  test on a dictionary, \<open>TypeError\<close> on the values that are not containers.
\<close>

definition replace_strip :: "pyval \<Rightarrow> string \<Rightarrow> error + pyval" where
  "replace_strip title postfix =
     (case title of PStr s \<Rightarrow> Inr (PStr (py_strip (py_replace s postfix '''')))
      | _ \<Rightarrow> Inl AttributeError)"

definition py_in :: "string \<Rightarrow> pyval \<Rightarrow> error + bool" where
  "py_in sub v =
     (case v of PStr s \<Rightarrow> Inr (is_substring sub s)
      | PList xs \<Rightarrow> Inr (PStr sub \<in> set xs)
      | PDict d \<Rightarrow> Inr (has_key d sub)
      | _ \<Rightarrow> Inl TypeError)"

text \<open>
  A \<open>Tile\<close>: its identity \<open>(dashboard_id, tile_id)\<close> and its \<open>tile_options\<close>. The owner
  and report ids of a tile are left out: the source only hands them on to \<open>Tile.insert\<close>
  and \<open>apply_mods\<close>.
\<close>

record tile =
  tile_id :: nat
  dashboard_id :: nat
  tile_options :: pydict

text \<open>
  The collaborators outside the source file that are left open: the series specs of a
  tile (\<open>Tile.series_specs()\<close>), the canonical identity of a series spec
  (\<open>dataseries.series_spec_for_default_options\<close>), the generated title postfix of a
  tile's widget (\<open>tile.tilewidget.generate_tile_title_postfix()\<close>), the value under which
  \<open>Tile.insert\<close> stores a series spec list, and the layout mods \<open>place_tile_mod\<close>,
  \<open>repack_mod\<close> and \<open>pack_upwards_mod\<close> of \<open>mqe.layouts\<close>, over the layout-mod state
  \<open>'lm\<close>.
\<close>

record 'lm collaborators =
  series_specs :: "tile \<Rightarrow> pyval list"
  series_spec_for_default_options :: "pyval \<Rightarrow> pyval"
  generate_tile_title_postfix :: "tile \<Rightarrow> string"
  series_configs_of :: "pyval list \<Rightarrow> pyval"
  place_tile_mod :: "tile \<Rightarrow> nat \<Rightarrow> 'lm \<Rightarrow> error + 'lm"
  repack_mod :: "'lm \<Rightarrow> error + 'lm"
  pack_upwards_mod :: "'lm \<Rightarrow> error + 'lm"

text \<open>The \<open>tile_config\<close> dictionary handed to \<open>Tile.insert\<close>.\<close>

record tile_config =
  cfg_tw_type :: pyval
  cfg_tags :: pyval
  cfg_series_spec_list :: "pyval list"
  cfg_tile_options :: pydict

text \<open>
  Modelled from the spec: \<open>Tile.insert(..., skip_db=True, tile_config=...)\<close> of
  \<open>mqe.tiles\<close> is not part of the source file. By section 4.2 of the spec the options of
  the tile it builds are the \<open>tile_options\<close> of the config, with \<open>tw_type\<close> and \<open>tags\<close>
  set from the config and the series list stored as \<open>series_configs\<close>.
\<close>

definition Tile_insert_tile_options :: "('lm, 'z) collaborators_scheme \<Rightarrow> tile_config \<Rightarrow> pydict" where
  "Tile_insert_tile_options c cfg =
     dict_set (dict_set (dict_set (cfg_tile_options cfg) ''tw_type'' (cfg_tw_type cfg))
        ''tags'' (cfg_tags cfg))
        ''series_configs'' (series_configs_of c (cfg_series_spec_list cfg))"

text \<open>
  Modelled from the spec: \<open>Tile.is_master_tile()\<close> and the \<open>Tile.tags\<close> property are not
  part of the source file. By section 3 a tile is master iff \<open>tpcreator_data\<close> is absent
  and \<open>tpcreator_uispec\<close> is present; the tags of a tile are its \<open>tile_options['tags']\<close>.
\<close>

definition is_master_tile :: "tile \<Rightarrow> bool" where
  "is_master_tile t =
     (\<not> has_key (tile_options t) ''tpcreator_data'' \<and> has_key (tile_options t) ''tpcreator_uispec'')"

definition tile_tags :: "tile \<Rightarrow> error + pyval" where
  "tile_tags t = (case map_of (tile_options t) ''tags'' of None \<Rightarrow> Inl KeyError | Some v \<Rightarrow> Inr v)"

definition pyval_of_tags :: "string list \<Rightarrow> pyval" where
  "pyval_of_tags ts = PList (map PStr ts)"

definition pyval_of_spec :: "tpcreator_spec option \<Rightarrow> pyval" where
  "pyval_of_spec spec =
     (case spec of None \<Rightarrow> PNone
      | Some d \<Rightarrow> PDict (map (\<lambda>(k, xs). (k, pyval_of_tags xs)) d))"

section \<open>Deriving tile options\<close>

definition unique_series_specs :: "('lm, 'z) collaborators_scheme \<Rightarrow> pyval list \<Rightarrow> pyval list" where
  "unique_series_specs c ss_list = uniq_sameorder_key (series_spec_for_default_options c) ss_list"

text \<open>The local \<open>series_specs\<close> of \<open>_tile_options_of_tpcreated\<close>.\<close>

definition series_specs_of_tpcreated ::
  "('lm, 'z) collaborators_scheme \<Rightarrow> tile \<Rightarrow> tile option \<Rightarrow> pyval list" where
  "series_specs_of_tpcreated c master_tile old_tpcreated =
     (case old_tpcreated of
        Some old \<Rightarrow> unique_series_specs c (series_specs c master_tile @ series_specs c old)
      | None \<Rightarrow> series_specs c master_tile)"

text \<open>\<open>new_tile_options['tpcreator_data'][k] = v\<close>.\<close>

definition tpcreator_data_set :: "pydict \<Rightarrow> string \<Rightarrow> pyval \<Rightarrow> error + pydict" where
  "tpcreator_data_set opts k v =
     (case map_of opts ''tpcreator_data'' of
        None \<Rightarrow> Inl KeyError
      | Some (PDict d) \<Rightarrow> Inr (dict_set opts ''tpcreator_data'' (PDict (dict_set d k v)))
      | Some _ \<Rightarrow> Inl TypeError)"

text \<open>\<open>tile_options['tpcreator_data'][k]\<close>, read as an optional value.\<close>

definition tpcreator_data_get :: "pydict \<Rightarrow> string \<Rightarrow> pyval option" where
  "tpcreator_data_get opts k =
     (case map_of opts ''tpcreator_data'' of Some (PDict d) \<Rightarrow> map_of d k | _ \<Rightarrow> None)"

definition ensure_tpcreator_data :: "pydict \<Rightarrow> pydict" where
  "ensure_tpcreator_data opts =
     (if \<not> has_key opts ''tpcreator_data'' then dict_set opts ''tpcreator_data'' (PDict [])
      else opts)"

definition excluded_master_keys :: "string set" where
  "excluded_master_keys = {''series_configs'', ''tags'', ''tile_title''}"

definition tile_options_of_tpcreated ::
  "('lm, 'z) collaborators_scheme \<Rightarrow> tile \<Rightarrow> tpcreator_spec option \<Rightarrow> pyval \<Rightarrow> tile option
     \<Rightarrow> error + pydict" where
  "tile_options_of_tpcreated c master_tile tpcreator_spec tags old_tpcreated =
     (let series = series_specs_of_tpcreated c master_tile old_tpcreated in
      case map_of (tile_options master_tile) ''tw_type'' of
        None \<Rightarrow> Inl KeyError
      | Some tw_type \<Rightarrow>
         (let new_tile_options = ensure_tpcreator_data (Tile_insert_tile_options c
                 \<lparr>cfg_tw_type = tw_type, cfg_tags = tags, cfg_series_spec_list = series,
                  cfg_tile_options =
                    filter (\<lambda>(k, v). k \<notin> excluded_master_keys) (tile_options master_tile)\<rparr>);
              tile_title = dict_get (tile_options master_tile) ''tile_title''
          in bind_err
              (if truthy tile_title
               then bind_err
                      (let postfix = generate_tile_title_postfix c master_tile
                       in if postfix \<noteq> [] then replace_strip tile_title postfix
                          else Inr tile_title)
                      (\<lambda>base. tpcreator_data_set new_tile_options ''tile_title_base'' base)
               else Inr new_tile_options)
              (\<lambda>opts1. bind_err
                 (tpcreator_data_set (dict_pop opts1 ''tpcreator_uispec'') ''master_tile_id''
                    (PUuid (tile_id master_tile)))
              (\<lambda>opts2. case map_of (tile_options master_tile) ''tpcreator_uispec'' of
                 None \<Rightarrow> Inl KeyError
               | Some uispec \<Rightarrow> bind_err
                 (tpcreator_data_set opts2 ''master_tpcreator_uispec'' uispec)
              (\<lambda>opts3. tpcreator_data_set opts3 ''master_tpcreator_spec''
                 (pyval_of_spec tpcreator_spec))))))"

definition sync_tpcreator_data ::
  "tile \<Rightarrow> tile \<Rightarrow> tpcreator_spec option \<Rightarrow> error + pydict" where
  "sync_tpcreator_data master_tile tpcreated tpcreator_spec =
     bind_err
       (tpcreator_data_set (ensure_tpcreator_data (tile_options tpcreated)) ''master_tile_id''
          (PUuid (tile_id master_tile)))
     (\<lambda>opts1. case map_of (tile_options master_tile) ''tpcreator_uispec'' of
        None \<Rightarrow> Inl KeyError
      | Some uispec \<Rightarrow> bind_err
        (tpcreator_data_set opts1 ''master_tpcreator_uispec'' uispec)
     (\<lambda>opts2. tpcreator_data_set opts2 ''master_tpcreator_spec''
        (pyval_of_spec tpcreator_spec)))"

section \<open>Storage and layouts\<close>

text \<open>
  Modelled from the spec: the tile store (\<open>Tile.select\<close>, \<open>Tile.select_multi\<close>,
  \<open>Tile.insert_with_tile_options\<close> and its bulk variant) and the layout-by-report rows
  are not part of the source file. The store maps \<open>(dashboard_id, tile_id)\<close> to the
  options of the tile; an insertion appends a row under a fresh tile id (a counter here)
  and returns the new tile. \<open>deleted_rows\<close> records the calls of
  \<open>delete_layout_by_report\<close>.
\<close>

record layout_row =
  row_owner_id :: nat
  row_report_id :: nat
  row_tags :: "string list"
  row_label :: string
  row_dashboard_id :: nat
  row_layout_id :: nat

record world =
  tile_store :: "((nat \<times> nat) \<times> pydict) list"
  next_tile_id :: nat
  deleted_rows :: "layout_row list"

definition Tile_select :: "world \<Rightarrow> nat \<Rightarrow> nat \<Rightarrow> tile option" where
  "Tile_select w did tid =
     map_option (\<lambda>opts. \<lparr>tile_id = tid, dashboard_id = did, tile_options = opts\<rparr>)
       (map_of (tile_store w) (did, tid))"

definition Tile_select_multi :: "world \<Rightarrow> nat \<Rightarrow> nat list \<Rightarrow> (nat \<times> tile) list" where
  "Tile_select_multi w did tids =
     concat (map (\<lambda>tid. case Tile_select w did tid of None \<Rightarrow> [] | Some t \<Rightarrow> [(tid, t)])
       (remdups tids))"

definition Tile_insert_with_tile_options :: "world \<Rightarrow> nat \<Rightarrow> pydict \<Rightarrow> tile \<times> world" where
  "Tile_insert_with_tile_options w did opts =
     (\<lparr>tile_id = next_tile_id w, dashboard_id = did, tile_options = opts\<rparr>,
      w\<lparr>tile_store := tile_store w @ [((did, next_tile_id w), opts)],
        next_tile_id := Suc (next_tile_id w)\<rparr>)"

fun Tile_insert_with_tile_options_multi ::
  "world \<Rightarrow> nat \<Rightarrow> pydict list \<Rightarrow> tile list \<times> world" where
  "Tile_insert_with_tile_options_multi w did [] = ([], w)"
| "Tile_insert_with_tile_options_multi w did (opts # rest) =
     (case Tile_insert_with_tile_options w did opts of
        (t, w') \<Rightarrow>
          (case Tile_insert_with_tile_options_multi w' did rest of
             (ts, w'') \<Rightarrow> (t # ts, w'')))"

text \<open>
  The property snapshot of a tile in a layout (\<open>props\<close>), the placement of a tile
  (a visual-options dictionary), and the layout itself.
\<close>

record tile_props =
  props_report_id :: nat
  props_tags :: "string list"
  props_is_master :: bool
  props_master_id :: "nat option"
  props_tpcreator_spec :: "tpcreator_spec option"

record visual_options =
  vo_x :: int
  vo_y :: int
  vo_width :: int
  vo_height :: int

record layout =
  layout_id :: nat
  layout_dict :: "(nat \<times> visual_options) list"
  layout_props :: "(nat \<times> tile_props) list"

text \<open>
  Modelled from the spec: the methods of \<open>layouts.Layout\<close> are not part of the source
  file. \<open>get_current_props_by_tile_id()\<close> is the property snapshot of every tile,
  \<open>get_tile_props(tile_id)\<close> the snapshot of one tile or \<open>None\<close>, and
  \<open>get_tpcreated_tile_ids(master_id)\<close> the tiles whose \<open>master_id\<close> is the given one.
\<close>

definition get_current_props_by_tile_id :: "layout \<Rightarrow> (nat \<times> tile_props) list" where
  "get_current_props_by_tile_id lay = layout_props lay"

definition get_tile_props :: "layout \<Rightarrow> nat \<Rightarrow> tile_props option" where
  "get_tile_props lay tid = map_of (layout_props lay) tid"

definition get_tpcreated_tile_ids :: "layout \<Rightarrow> nat \<Rightarrow> nat list" where
  "get_tpcreated_tile_ids lay master_id =
     map fst (filter (\<lambda>(tid, props). props_master_id props = Some master_id) (layout_props lay))"

record report_instance =
  ri_report_id :: nat
  all_tags :: "string list"

section \<open>TPCreator handling\<close>

text \<open>
  \<open>_get_tpcreator_data\<close>: the loop over the property snapshots. The first component is
  the dictionary \<open>tpcreator_spec_by_master_id\<close>, the second the
  \<open>defaultdict(set)\<close> \<open>tpcreated_tags_by_master_id\<close>, a total function whose default is
  the empty set; \<open>tuple(sorted(tags))\<close> is the sorted list.
\<close>

fun get_tpcreator_data_loop ::
  "(nat \<times> tile_props) list \<Rightarrow> nat
     \<Rightarrow> (nat \<times> tpcreator_spec option) list \<times> (nat \<Rightarrow> string list set)
     \<Rightarrow> (nat \<times> tpcreator_spec option) list \<times> (nat \<Rightarrow> string list set)" where
  "get_tpcreator_data_loop [] rid acc = acc"
| "get_tpcreator_data_loop ((tid, props) # rest) rid (specs, tg) =
     (if props_report_id props \<noteq> rid then get_tpcreator_data_loop rest rid (specs, tg)
      else if props_is_master props
      then get_tpcreator_data_loop rest rid
             (AList.update tid (props_tpcreator_spec props) specs,
              tg(tid := insert (sort (props_tags props)) (tg tid)))
      else case props_master_id props of
             None \<Rightarrow> get_tpcreator_data_loop rest rid (specs, tg)
           | Some master_id \<Rightarrow>
               get_tpcreator_data_loop rest rid
                 (specs, tg(master_id := insert (sort (props_tags props)) (tg master_id))))"

definition get_tpcreator_data ::
  "layout \<Rightarrow> nat \<Rightarrow> (nat \<times> tpcreator_spec option) list \<times> (nat \<Rightarrow> string list set)" where
  "get_tpcreator_data lay rid =
     get_tpcreator_data_loop (get_current_props_by_tile_id lay) rid ([], \<lambda>_. {})"

text \<open>
  The body of the loop of \<open>do_tpcreator_mod\<close> for one master. The outcome is the raised
  exception, if any, with the store and the layout-mod state as they are then: a tile
  inserted before an exception stays in the store. \<open>not matching_tags\<close> holds for \<open>None\<close>
  and for the empty list.
\<close>

definition no_matching_tags :: "string list option \<Rightarrow> bool" where
  "no_matching_tags matching_tags = (case matching_tags of None \<Rightarrow> True | Some m \<Rightarrow> m = [])"

definition tpcreator_master_step ::
  "('lm, 'z) collaborators_scheme \<Rightarrow> report_instance \<Rightarrow> layout_row \<Rightarrow> nat
     \<Rightarrow> (nat \<Rightarrow> string list set) \<Rightarrow> nat \<times> tpcreator_spec option
     \<Rightarrow> world \<times> 'lm \<Rightarrow> error option \<times> world \<times> 'lm" where
  "tpcreator_master_step c ri row max_tpcreated tpcreated_tags_by_master_id item st =
     (case item of (master_id, tpcreator_spec) \<Rightarrow>
      case st of (w, lm) \<Rightarrow>
      let tpcreated_tags = tpcreated_tags_by_master_id master_id in
      if card tpcreated_tags \<ge> max_tpcreated then (None, w, lm)
      else case tags_matching_tpcreator_spec tpcreator_spec (all_tags ri) of
        Inl e \<Rightarrow> (Some e, w, lm)
      | Inr matching_tags \<Rightarrow>
          if no_matching_tags matching_tags then (None, w, lm)
          else if the matching_tags \<in> tpcreated_tags then (None, w, lm)
          else case Tile_select w (row_dashboard_id row) master_id of
            None \<Rightarrow> (None, w, lm)
          | Some master_tile \<Rightarrow>
             (case tile_options_of_tpcreated c master_tile tpcreator_spec
                     (pyval_of_tags (the matching_tags)) None of
                Inl e \<Rightarrow> (Some e, w, lm)
              | Inr new_tile_options \<Rightarrow>
                 (case Tile_insert_with_tile_options w (dashboard_id master_tile)
                         new_tile_options of
                    (new_tile, w') \<Rightarrow>
                      (case place_tile_mod c new_tile (tile_id master_tile) lm of
                         Inl e \<Rightarrow> (Some e, w', lm)
                       | Inr lm' \<Rightarrow> (None, w', lm')))))"

fun tpcreator_masters_loop ::
  "('lm, 'z) collaborators_scheme \<Rightarrow> report_instance \<Rightarrow> layout_row \<Rightarrow> nat
     \<Rightarrow> (nat \<Rightarrow> string list set) \<Rightarrow> (nat \<times> tpcreator_spec option) list
     \<Rightarrow> world \<times> 'lm \<Rightarrow> error option \<times> world \<times> 'lm" where
  "tpcreator_masters_loop c ri row max_tpcreated tg [] st = (None, st)"
| "tpcreator_masters_loop c ri row max_tpcreated tg (item # rest) st =
     (case tpcreator_master_step c ri row max_tpcreated tg item st of
        (Some e, st') \<Rightarrow> (Some e, st')
      | (None, st') \<Rightarrow> tpcreator_masters_loop c ri row max_tpcreated tg rest st')"

text \<open>
  \<open>do_tpcreator_mod\<close>, the mod returned by \<open>tpcreator_mod(report_instance, layout_row,
  max_tpcreated)\<close>. \<open>lay\<close> reads \<open>layout_mod.layout\<close>.
\<close>

definition do_tpcreator_mod ::
  "('lm, 'z) collaborators_scheme \<Rightarrow> ('lm \<Rightarrow> layout) \<Rightarrow> report_instance \<Rightarrow> layout_row \<Rightarrow> nat
     \<Rightarrow> world \<times> 'lm \<Rightarrow> error option \<times> world \<times> 'lm" where
  "do_tpcreator_mod c lay ri row max_tpcreated st =
     (case st of (w, lm) \<Rightarrow>
      case get_tpcreator_data (lay lm) (ri_report_id ri) of
        (tpcreator_spec_by_master_id, tpcreated_tags_by_master_id) \<Rightarrow>
          if tpcreator_spec_by_master_id = []
          then (None, w\<lparr>deleted_rows := deleted_rows w @ [row]\<rparr>, lm)
          else tpcreator_masters_loop c ri row max_tpcreated tpcreated_tags_by_master_id
                 tpcreator_spec_by_master_id (w, lm))"

section \<open>Other functions manipulating the master and tpcreated tiles\<close>

text \<open>The loop of \<open>replace_tpcreated\<close> that computes the options of the replacements.\<close>

fun replacement_options_loop ::
  "('lm, 'z) collaborators_scheme \<Rightarrow> tile \<Rightarrow> tpcreator_spec option \<Rightarrow> bool \<Rightarrow> tile list
     \<Rightarrow> error + pydict list" where
  "replacement_options_loop c new_master tpcreator_spec sync_tpcreated [] = Inr []"
| "replacement_options_loop c new_master tpcreator_spec sync_tpcreated (t # rest) =
     bind_err
       (if sync_tpcreated
        then bind_err (tile_tags t)
               (\<lambda>tags. tile_options_of_tpcreated c new_master tpcreator_spec tags (Some t))
        else sync_tpcreator_data new_master t tpcreator_spec)
       (\<lambda>to. bind_err
          (replacement_options_loop c new_master tpcreator_spec sync_tpcreated rest)
          (\<lambda>tos. Inr (to # tos)))"

text \<open>
  \<open>replace_tpcreated\<close>. The returned dictionary \<open>tile_replacement\<close>, keyed by the replaced
  tiles, is an association list filled by the assignments of the last loop.
  \<open>get_tile_props(...)['tpcreator_spec']\<close> is a \<open>TypeError\<close> when the props are \<open>None\<close>.
\<close>

definition replace_tpcreated ::
  "('lm, 'z) collaborators_scheme \<Rightarrow> layout \<Rightarrow> tile \<Rightarrow> tile \<Rightarrow> bool \<Rightarrow> nat list \<Rightarrow> world
     \<Rightarrow> error + (tile \<times> tile) list \<times> world" where
  "replace_tpcreated c lay old_master new_master sync_tpcreated skip_replacements w =
     (case get_tile_props lay (tile_id old_master) of
        None \<Rightarrow> Inl TypeError
      | Some props \<Rightarrow>
         (let tpcreator_spec = props_tpcreator_spec props;
              tpcreated_tile_id_list0 = get_tpcreated_tile_ids lay (tile_id old_master);
              tpcreated_tile_id_list =
                (if skip_replacements \<noteq> []
                 then filter (\<lambda>tid. tid \<notin> set skip_replacements) tpcreated_tile_id_list0
                 else tpcreated_tile_id_list0);
              tpcreated_tiles = Tile_select_multi w (dashboard_id old_master) tpcreated_tile_id_list
          in bind_err
               (replacement_options_loop c new_master tpcreator_spec sync_tpcreated
                  (map snd tpcreated_tiles))
               (\<lambda>tpcreated_tiles_new_tos.
                  case Tile_insert_with_tile_options_multi w (dashboard_id old_master)
                         tpcreated_tiles_new_tos of
                    (tpcreated_tiles_repl, w') \<Rightarrow>
                      Inr (foldl (\<lambda>tile_replacement (tt, ttr). AList.update tt ttr tile_replacement)
                             [] (zip (map snd tpcreated_tiles) tpcreated_tiles_repl), w'))))"

text \<open>
  \<open>make_master_from_tpcreated\<close>. The block that computes the postfix-stripped title
  only evaluates an expression: \<open>title_strip_check\<close> is what that evaluation can raise,
  and its value is dropped.
\<close>

definition title_strip_check :: "('lm, 'z) collaborators_scheme \<Rightarrow> tile \<Rightarrow> pydict \<Rightarrow> error + unit" where
  "title_strip_check c tpcreated new_master_to =
     (if truthy (dict_get new_master_to ''tile_title'')
      then (let postfix = generate_tile_title_postfix c tpcreated
            in if postfix = [] then Inr ()
               else bind_err (py_in postfix (dict_get new_master_to ''tile_title''))
                      (\<lambda>found. if found
                          then bind_err (replace_strip (dict_get new_master_to ''tile_title'') postfix)
                                 (\<lambda>_. Inr ())
                          else Inr ()))
      else Inr ())"

definition old_master_title_for ::
  "('lm, 'z) collaborators_scheme \<Rightarrow> tile \<Rightarrow> tile \<Rightarrow> pyval \<Rightarrow> error + pyval" where
  "old_master_title_for c old_master tpcreated old_master_title =
     (let old_postfix = generate_tile_title_postfix c old_master
      in bind_err (py_in old_postfix old_master_title)
           (\<lambda>found. if found
               then (case old_master_title of
                       PStr s \<Rightarrow> Inr (PStr (py_replace s old_postfix
                                   (generate_tile_title_postfix c tpcreated)))
                     | _ \<Rightarrow> Inl AttributeError)
               else Inr old_master_title))"

definition make_master_from_tpcreated ::
  "('lm, 'z) collaborators_scheme \<Rightarrow> tile \<Rightarrow> tile \<Rightarrow> world \<Rightarrow> error + tile \<times> world" where
  "make_master_from_tpcreated c old_master tpcreated w =
     (if \<not> is_master_tile old_master then Inl AssertionError
      else if is_master_tile tpcreated then Inl AssertionError
      else case map_of (tile_options old_master) ''tpcreator_uispec'' of
        None \<Rightarrow> Inl KeyError
      | Some uispec \<Rightarrow>
         (let to1 = dict_set (tile_options tpcreated) ''tpcreator_uispec'' uispec
          in if \<not> has_key to1 ''tpcreator_data'' then Inl KeyError
             else
              (let new_master_to = dict_pop to1 ''tpcreator_data''
               in bind_err (title_strip_check c tpcreated new_master_to)
                  (\<lambda>_. let old_master_title = dict_get (tile_options old_master) ''tile_title''
                   in bind_err
                        (if truthy old_master_title \<and> \<not> truthy (dict_get new_master_to ''tile_title'')
                         then bind_err (old_master_title_for c old_master tpcreated old_master_title)
                                (\<lambda>title. Inr (dict_set new_master_to ''tile_title'' title))
                         else Inr new_master_to)
                        (\<lambda>final_to. Inr (Tile_insert_with_tile_options w
                                            (dashboard_id old_master) final_to))))))"

text \<open>
  \<open>synchronize_sizes_of_tpcreated_mod\<close>: the loop over \<open>layout_dict\<close>, which rewrites
  the placements in place and keeps the flag \<open>changed\<close>. The test
  \<open>tile_id != master_tile.tile_id and props.get('master_id') == master_tile.tile_id\<close>
  stops at its first conjunct for the master's own entry; for any other tile,
  \<open>props.get\<close> on the \<open>None\<close> that \<open>get_tile_props\<close> returns for an unknown tile is an
  \<open>AttributeError\<close>.
\<close>

fun synchronize_loop ::
  "layout \<Rightarrow> nat \<Rightarrow> visual_options \<Rightarrow> (nat \<times> visual_options) list
     \<Rightarrow> (nat \<times> visual_options) list \<times> bool \<Rightarrow> error + (nat \<times> visual_options) list \<times> bool" where
  "synchronize_loop lay master_id master_vo [] acc = Inr acc"
| "synchronize_loop lay master_id master_vo ((tid, vo) # rest) (done, changed) =
     (if tid \<noteq> master_id
      then (case get_tile_props lay tid of
              None \<Rightarrow> Inl AttributeError
            | Some props \<Rightarrow>
                if props_master_id props = Some master_id
                then (let vo1 = (if vo_width vo \<noteq> vo_width master_vo
                                 then vo\<lparr>vo_width := vo_width master_vo\<rparr> else vo);
                          changed1 = (vo_width vo \<noteq> vo_width master_vo \<or> changed);
                          vo2 = (if vo_height vo1 \<noteq> vo_height master_vo
                                 then vo1\<lparr>vo_height := vo_height master_vo\<rparr> else vo1);
                          changed2 = (vo_height vo1 \<noteq> vo_height master_vo \<or> changed1)
                      in synchronize_loop lay master_id master_vo rest
                           (done @ [(tid, vo2)], changed2))
                else synchronize_loop lay master_id master_vo rest (done @ [(tid, vo)], changed))
      else synchronize_loop lay master_id master_vo rest (done @ [(tid, vo)], changed))"

text \<open>
  \<open>do_synchronize\<close>, over a layout-mod state that holds the layout (\<open>lay\<close> reads it,
  \<open>set_layout\<close> stores it back).
\<close>

definition do_synchronize ::
  "('lm, 'z) collaborators_scheme \<Rightarrow> ('lm \<Rightarrow> layout) \<Rightarrow> (layout \<Rightarrow> 'lm \<Rightarrow> 'lm) \<Rightarrow> tile \<Rightarrow> 'lm
     \<Rightarrow> error + 'lm" where
  "do_synchronize c lay set_layout master_tile layout_mod =
     (case map_of (layout_dict (lay layout_mod)) (tile_id master_tile) of
        None \<Rightarrow> Inl LayoutModificationImpossible
      | Some master_vo \<Rightarrow>
          bind_err
            (synchronize_loop (lay layout_mod) (tile_id master_tile) master_vo
               (layout_dict (lay layout_mod)) ([], False))
            (\<lambda>(new_dict, changed).
               if \<not> changed then Inl LayoutModificationImpossible
               else bind_err
                      (repack_mod c
                         (set_layout ((lay layout_mod)\<lparr>layout_dict := new_dict\<rparr>) layout_mod))
                      (pack_upwards_mod c)))"

section \<open>Notions used in the statements\<close>

text \<open>
  What \<open>do_synchronize\<close> is compared with: \<open>is_tpcreated_of\<close> is the test of its loop
  (a tile other than the master whose \<open>master_id\<close> is the master's id), and
  \<open>synchronized_dict\<close> is the \<open>layout_dict\<close> in which exactly these tiles have the
  master's width and height.
\<close>

definition is_tpcreated_of :: "layout \<Rightarrow> nat \<Rightarrow> nat \<Rightarrow> bool" where
  "is_tpcreated_of lay master_id tid =
     (tid \<noteq> master_id \<and>
      (case get_tile_props lay tid of None \<Rightarrow> False
       | Some props \<Rightarrow> props_master_id props = Some master_id))"

definition synchronized_dict ::
  "layout \<Rightarrow> nat \<Rightarrow> visual_options \<Rightarrow> (nat \<times> visual_options) list \<Rightarrow> (nat \<times> visual_options) list" where
  "synchronized_dict lay master_id master_vo items =
     map (\<lambda>(tid, vo). if is_tpcreated_of lay master_id tid
            then (tid, vo\<lparr>vo_width := vo_width master_vo, vo_height := vo_height master_vo\<rparr>)
            else (tid, vo)) items"

text \<open>
  What \<open>_get_tpcreator_data\<close> is compared with: the tiles of a layout that it records for
  a master id in a run for report \<open>rid\<close> (the master itself and the tiles created from
  it), in the order of the property snapshots.
\<close>

definition recorded_for :: "nat \<Rightarrow> nat \<Rightarrow> nat \<times> tile_props \<Rightarrow> bool" where
  "recorded_for rid master_id item =
     (case item of (tid, props) \<Rightarrow>
        props_report_id props = rid \<and>
        (if props_is_master props then tid = master_id
         else props_master_id props = Some master_id))"

definition recorded_tiles :: "layout \<Rightarrow> nat \<Rightarrow> nat \<Rightarrow> (nat \<times> tile_props) list" where
  "recorded_tiles lay rid master_id = filter (recorded_for rid master_id) (layout_props lay)"

definition sorted_tags_of :: "nat \<times> tile_props \<Rightarrow> string list" where
  "sorted_tags_of item = sort (props_tags (snd item))"

text \<open>What a row of the store created for master \<open>mid\<close> with spec \<open>spec\<close> satisfies.\<close>

definition created_for ::
  "report_instance \<Rightarrow> nat \<Rightarrow> (nat \<Rightarrow> string list set) \<Rightarrow> nat \<times> tpcreator_spec option
     \<Rightarrow> (nat \<times> nat) \<times> pydict \<Rightarrow> bool" where
  "created_for ri max_tpcreated tg item row =
     (case item of (mid, spec) \<Rightarrow>
        \<exists>m. card (tg mid) < max_tpcreated
           \<and> tags_matching_tpcreator_spec spec (all_tags ri) = Inr (Some m) \<and> m \<noteq> []
           \<and> m \<notin> tg mid
           \<and> map_of (snd row) ''tags'' = Some (pyval_of_tags m)
           \<and> tpcreator_data_get (snd row) ''master_tile_id'' = Some (PUuid mid))"

text \<open>The master a row of the store is linked to: its \<open>tpcreator_data['master_tile_id']\<close>.\<close>

definition master_link :: "(nat \<times> nat) \<times> pydict \<Rightarrow> pyval option" where
  "master_link row = tpcreator_data_get (snd row) ''master_tile_id''"

text \<open>
  What \<open>replace_tpcreated\<close> is compared with: the options of a replacement of tile \<open>t\<close>
  under the new master.
\<close>

definition replaces :: "tile \<Rightarrow> tile \<Rightarrow> pydict \<Rightarrow> bool" where
  "replaces new_master t opts =
     (tpcreator_data_get opts ''master_tile_id'' = Some (PUuid (tile_id new_master))
      \<and> map_of opts ''tags'' = map_of (tile_options t) ''tags'')"

section \<open>Example inputs\<close>

text \<open>Concrete collaborators, tiles and layouts on which the theorems below are instantiated.\<close>

definition example_collaborators :: "layout collaborators" where
  "example_collaborators =
     \<lparr>series_specs = (\<lambda>t. case dict_get (tile_options t) ''series_configs'' of
                              PList xs \<Rightarrow> xs | _ \<Rightarrow> []),
      series_spec_for_default_options = (\<lambda>v. v),
      generate_tile_title_postfix = (\<lambda>t. ''[x]''),
      series_configs_of = PList,
      place_tile_mod = (\<lambda>t m lm. Inr lm),
      repack_mod = Inr,
      pack_upwards_mod = Inr\<rparr>"

definition example_master :: tile where
  "example_master =
     \<lparr>tile_id = 1, dashboard_id = 7,
      tile_options = [(''tw_type'', PStr ''Range''), (''tags'', PList [PStr ''env:prod'']),
        (''tile_title'', PStr ''Load [x]''),
        (''series_configs'', PList [PStr ''cpu'', PStr ''mem'']),
        (''colors'', PList [PStr ''red'']),
        (''tpcreator_uispec'', PList [PDict [(''tag'', PStr ''env:prod''), (''prefix'', PStr ''env:'')]])]\<rparr>"

definition example_tpcreated :: tile where
  "example_tpcreated =
     \<lparr>tile_id = 2, dashboard_id = 7,
      tile_options = [(''tw_type'', PStr ''Range''), (''tags'', PList [PStr ''env:dev'']),
        (''tile_title'', PStr ''Load [x]''),
        (''series_configs'', PList [PStr ''mem'', PStr ''disk'', PStr ''cpu'']),
        (''tpcreator_data'', PDict [(''master_tile_id'', PUuid 1)])]\<rparr>"

definition example_world :: world where
  "example_world =
     \<lparr>tile_store = [((7, 1), tile_options example_master), ((7, 2), tile_options example_tpcreated)],
      next_tile_id = 3, deleted_rows = []\<rparr>"

definition example_layout :: layout where
  "example_layout =
     \<lparr>layout_id = 40,
      layout_dict =
        [(1, \<lparr>vo_x = 0, vo_y = 0, vo_width = 4, vo_height = 3\<rparr>),
         (2, \<lparr>vo_x = 4, vo_y = 0, vo_width = 2, vo_height = 3\<rparr>),
         (5, \<lparr>vo_x = 0, vo_y = 3, vo_width = 6, vo_height = 1\<rparr>)],
      layout_props =
        [(1, \<lparr>props_report_id = 11, props_tags = [''env:prod''], props_is_master = True,
              props_master_id = None,
              props_tpcreator_spec = Some [(''full_tags'', []), (''prefixes'', [''env:''])]\<rparr>),
         (2, \<lparr>props_report_id = 11, props_tags = [''env:dev''], props_is_master = False,
              props_master_id = Some 1, props_tpcreator_spec = None\<rparr>),
         (5, \<lparr>props_report_id = 12, props_tags = [], props_is_master = False,
              props_master_id = None, props_tpcreator_spec = None\<rparr>)]\<rparr>"

definition example_report_instance :: report_instance where
  "example_report_instance = \<lparr>ri_report_id = 11, all_tags = [''host:1'', ''env:qa'']\<rparr>"

definition example_layout_row :: layout_row where
  "example_layout_row =
     \<lparr>row_owner_id = 3, row_report_id = 11, row_tags = [], row_label = ''tpcreator'',
      row_dashboard_id = 7, row_layout_id = 40\<rparr>"

definition example_new_master :: tile where
  "example_new_master =
     \<lparr>tile_id = 4, dashboard_id = 7,
      tile_options = [(''tw_type'', PStr ''Single''), (''tags'', PList [PStr ''env:qa'']),
        (''tile_title'', PStr ''Load [x]''),
        (''series_configs'', PList [PStr ''cpu'']),
        (''tpcreator_uispec'', PList [PDict [(''tag'', PStr ''env:qa''), (''prefix'', PStr ''env:'')]])]\<rparr>"

section \<open>Properties of the matching\<close>

lemma uniq_loop_set: "set (uniq_loop key seen xs) \<subseteq> set xs"
  by (induction xs arbitrary: seen) auto

lemma uniq_loop_keys:
  "key ` set (uniq_loop key seen xs) = key ` set xs - set seen"
  by (induction xs arbitrary: seen) auto

lemma uniq_loop_distinct: "distinct (map key (uniq_loop key seen xs))"
proof (induction xs arbitrary: seen)
  case Nil
  show ?case by simp
next
  case (Cons x xs)
  have "key x \<notin> key ` set (uniq_loop key (key x # seen) xs)"
    by (simp add: uniq_loop_keys)
  with Cons show ?case by simp
qed

lemma set_uniq_sameorder [simp]: "set (uniq_sameorder xs) = set xs"
  using uniq_loop_keys [of "\<lambda>x. x" "[]" xs]
  by (simp add: uniq_sameorder_def uniq_sameorder_key_def)

lemma distinct_uniq_sameorder [simp]: "distinct (uniq_sameorder xs)"
  using uniq_loop_distinct [of "\<lambda>x. x" "[]" xs]
  by (simp add: uniq_sameorder_def uniq_sameorder_key_def)

lemma full_tags_loop_eq:
  "full_tags_loop fts tags res = (if set fts \<subseteq> set tags then Some (res @ fts) else None)"
  by (induction fts arbitrary: res) auto

lemma prefix_tags_loop_eq:
  "prefix_tags_loop p tags (res, m) =
     (res @ filter (\<lambda>t. startswith t p) tags, m \<or> (\<exists>t \<in> set tags. startswith t p))"
  by (induction tags arbitrary: res m) auto

lemma prefixes_loop_eq:
  "prefixes_loop ps tags res =
     (if \<forall>p \<in> set ps. \<exists>t \<in> set tags. startswith t p
      then Some (res @ concat (map (\<lambda>p. filter (\<lambda>t. startswith t p) tags) ps))
      else None)"
  by (induction ps arbitrary: res) (auto simp: prefix_tags_loop_eq)

lemma sort_uniq_unique:
  "sorted r \<Longrightarrow> distinct r \<Longrightarrow> set r = set xs \<Longrightarrow> sort (uniq_sameorder xs) = r"
  by (rule sorted_distinct_set_unique) simp_all

lemma sort_uniq_cong:
  "set xs = set ys \<Longrightarrow> sort (uniq_sameorder xs) = sort (uniq_sameorder ys)"
  by (rule sorted_distinct_set_unique) simp_all

lemma tags_matching_wf:
  assumes "map_of d ''full_tags'' = Some fts" and "map_of d ''prefixes'' = Some ps"
  shows "tags_matching_tpcreator_spec (Some d) tags =
     Inr (if tags = [] \<or> (\<exists>ft \<in> set fts. ft \<notin> set tags)
               \<or> (\<exists>p \<in> set ps. \<forall>t \<in> set tags. \<not> startswith t p)
          then None
          else Some (sort (uniq_sameorder
                 (fts @ concat (map (\<lambda>p. filter (\<lambda>t. startswith t p) tags) ps)))))"
proof -
  from assms(1) have "d \<noteq> []" by auto
  then show ?thesis
    using assms
    by (auto simp: tags_matching_tpcreator_spec_def spec_is_empty_def full_tags_loop_eq
        prefixes_loop_eq)
qed

text \<open>
  C2. For a spec that is empty (\<open>None\<close> or \<open>{}\<close>) or carries both of its keys,
  \<open>tags_matching_tpcreator_spec\<close> returns \<open>None\<close> exactly when the spec is empty, the tag
  list is empty, a member of \<open>full_tags\<close> is absent from the tags, or a prefix is a prefix
  of no tag; otherwise it returns the deduplicated, lexicographically sorted list of every
  \<open>full_tags\<close> member plus every tag that starts with some configured prefix.
\<close>

theorem tags_matching_result:
  assumes "spec_is_empty spec \<or>
           (spec = Some d \<and> map_of d ''full_tags'' = Some fts \<and> map_of d ''prefixes'' = Some ps)"
  shows "tags_matching_tpcreator_spec spec tags =
     Inr (if spec_is_empty spec \<or> tags = [] \<or> (\<exists>ft \<in> set fts. ft \<notin> set tags)
               \<or> (\<exists>p \<in> set ps. \<forall>t \<in> set tags. \<not> startswith t p)
          then None
          else Some (sort (remdups (fts @ filter (\<lambda>t. \<exists>p \<in> set ps. startswith t p) tags))))"
proof (cases "spec_is_empty spec")
  case True
  then show ?thesis by (simp add: tags_matching_tpcreator_spec_def)
next
  case False
  with assms have d: "spec = Some d" "map_of d ''full_tags'' = Some fts"
    "map_of d ''prefixes'' = Some ps" by auto
  have "sort (uniq_sameorder (fts @ concat (map (\<lambda>p. filter (\<lambda>t. startswith t p) tags) ps)))
      = sort (remdups (fts @ filter (\<lambda>t. \<exists>p \<in> set ps. startswith t p) tags))"
    by (rule sort_uniq_unique) auto
  with False d show ?thesis
    by (simp add: tags_matching_wf [OF d(2,3)])
qed

theorem tags_matching_result_witness:
  "(spec_is_empty (Some [(''full_tags'', [''region:us'']), (''prefixes'', [''env:''])]) \<or>
    (Some [(''full_tags'', [''region:us'']), (''prefixes'', [''env:''])]
       = Some [(''full_tags'', [''region:us'']), (''prefixes'', [''env:''])] \<and>
     map_of [(''full_tags'', [''region:us'']), (''prefixes'', [''env:''])] ''full_tags''
       = Some [''region:us''] \<and>
     map_of [(''full_tags'', [''region:us'']), (''prefixes'', [''env:''])] ''prefixes''
       = Some [''env:''])) \<and>
   tags_matching_tpcreator_spec (Some [(''full_tags'', [''region:us'']), (''prefixes'', [''env:''])])
     [''region:us'', ''host:1'', ''env:prod'', ''env:dev'']
     = Inr (Some [''env:dev'', ''env:prod'', ''region:us'']) \<and>
   tags_matching_tpcreator_spec (Some [(''full_tags'', [''region:us'']), (''prefixes'', [''env:''])])
     [''region:us'', ''host:1''] = Inr None"
  using tags_matching_result [of "Some [(''full_tags'', [''region:us'']), (''prefixes'', [''env:''])]"
      "[(''full_tags'', [''region:us'']), (''prefixes'', [''env:''])]"
      "[''region:us'']" "[''env:'']" "[''region:us'', ''host:1'', ''env:prod'', ''env:dev'']"]
    tags_matching_result [of "Some [(''full_tags'', [''region:us'']), (''prefixes'', [''env:''])]"
      "[(''full_tags'', [''region:us'']), (''prefixes'', [''env:''])]"
      "[''region:us'']" "[''env:'']" "[''region:us'', ''host:1'']"]
  by (simp add: spec_is_empty_def startswith_def)

lemma tags_matching_set_cong:
  assumes "set tags1 = set tags2"
  shows "tags_matching_tpcreator_spec spec tags1 = tags_matching_tpcreator_spec spec tags2"
proof -
  from assms have e: "tags1 = [] \<longleftrightarrow> tags2 = []" by (metis set_empty)
  have c: "sort (uniq_sameorder (fts @ concat (map (\<lambda>p. filter (\<lambda>t. startswith t p) tags1) ps)))
      = sort (uniq_sameorder (fts @ concat (map (\<lambda>p. filter (\<lambda>t. startswith t p) tags2) ps)))"
    for fts ps
    by (rule sort_uniq_cong) (simp add: assms)
  show ?thesis
    unfolding tags_matching_tpcreator_spec_def full_tags_loop_eq prefixes_loop_eq
    by (auto simp: e assms c split: option.splits)
qed

lemma tags_matching_sorted:
  assumes "tags_matching_tpcreator_spec spec tags = Inr (Some r)"
  shows "sorted r \<and> distinct r"
  using assms
  by (auto simp: tags_matching_tpcreator_spec_def split: if_splits option.splits)

text \<open>
  C8. For every spec and every two tag lists that are permutations of each other,
  \<open>tags_matching_tpcreator_spec\<close> returns equal results (the same list, the same \<open>None\<close> or
  the same exception), and a result that is not \<open>None\<close> is sorted and free of duplicates.
\<close>

theorem tags_matching_order_independent:
  assumes "mset tags1 = mset tags2"
  shows "tags_matching_tpcreator_spec spec tags1 = tags_matching_tpcreator_spec spec tags2
       \<and> (\<forall>r. tags_matching_tpcreator_spec spec tags1 = Inr (Some r) \<longrightarrow> sorted r \<and> distinct r)"
proof -
  from assms have "set tags1 = set tags2" by (rule mset_eq_setD)
  then show ?thesis
    using tags_matching_set_cong tags_matching_sorted by blast
qed

theorem tags_matching_order_independent_witness:
  "mset [''env:prod'', ''host:1'', ''env:dev''] = mset [''env:dev'', ''env:prod'', ''host:1''] \<and>
   tags_matching_tpcreator_spec (Some [(''full_tags'', []), (''prefixes'', [''env:''])])
     [''env:prod'', ''host:1'', ''env:dev'']
   = tags_matching_tpcreator_spec (Some [(''full_tags'', []), (''prefixes'', [''env:''])])
     [''env:dev'', ''env:prod'', ''host:1''] \<and>
   tags_matching_tpcreator_spec (Some [(''full_tags'', []), (''prefixes'', [''env:''])])
     [''env:prod'', ''host:1'', ''env:dev''] = Inr (Some [''env:dev'', ''env:prod'']) \<and>
   sorted [''env:dev'', ''env:prod''] \<and> distinct [''env:dev'', ''env:prod'']"
proof -
  have p: "mset [''env:prod'', ''host:1'', ''env:dev''] = mset [''env:dev'', ''env:prod'', ''host:1'']"
    by (simp add: add_mset_commute)
  have v: "tags_matching_tpcreator_spec (Some [(''full_tags'', []), (''prefixes'', [''env:''])])
     [''env:prod'', ''host:1'', ''env:dev''] = Inr (Some [''env:dev'', ''env:prod''])"
    by (simp add: tags_matching_tpcreator_spec_def spec_is_empty_def startswith_def
        uniq_sameorder_def uniq_sameorder_key_def)
  from tags_matching_order_independent [OF p,
      of "Some [(''full_tags'', []), (''prefixes'', [''env:''])]"] p v
  show ?thesis by simp
qed

lemma startswith_tpcreator_prefix:
  assumes "TPCREATOR_SEPARATOR \<in> set t"
  shows "startswith t (tpcreator_prefix t)"
proof -
  let ?P = "\<lambda>c. c \<noteq> TPCREATOR_SEPARATOR"
  from assms have "dropWhile ?P t \<noteq> []" by (auto simp: dropWhile_eq_Nil_conv)
  then obtain r where r: "dropWhile ?P t = TPCREATOR_SEPARATOR # r"
    using hd_dropWhile [of ?P t] by (cases "dropWhile ?P t") auto
  have "t = takeWhile ?P t @ dropWhile ?P t" by simp
  with r have "t = tpcreator_prefix t @ r" by (simp add: tpcreator_prefix_def)
  then have "take (length (tpcreator_prefix t)) t = tpcreator_prefix t"
    by (metis append_eq_conv_conj)
  then show ?thesis by (simp add: startswith_def)
qed

lemma startswith_refl [simp]: "startswith t t"
  by (simp add: startswith_def)

text \<open>
  The round trip for any UISpec whose entries each carry a prefix of their own tag (the
  suggested UISpec, and any choice among \<open>suggested_tpcreator_prefixes\<close>), matched against
  the list of its own tag values.
\<close>

lemma roundtrip_general:
  assumes ne: "u \<noteq> []" and pre: "\<forall>d \<in> set u. startswith (tag d) (prefix d)"
  shows "tags_matching_tpcreator_spec (Some (tpcreator_spec_from_tpcreator_uispec u)) (map tag u)
       = Inr (Some (sort (remdups (map tag u))))"
proof -
  let ?fts = "map tag (filter (\<lambda>d. tag d = prefix d) u)"
  let ?ps = "sort_key length (uniq_sameorder (map prefix (filter (\<lambda>d. tag d \<noteq> prefix d) u)))"
  let ?tags = "map tag u"
  let ?hits = "concat (map (\<lambda>p. filter (\<lambda>t. startswith t p) ?tags) ?ps)"
  have ps: "set ?ps = prefix ` {d \<in> set u. tag d \<noteq> prefix d}" by auto
  have m: "map_of (tpcreator_spec_from_tpcreator_uispec u) ''full_tags'' = Some ?fts"
     "map_of (tpcreator_spec_from_tpcreator_uispec u) ''prefixes'' = Some ?ps"
    by (simp_all add: tpcreator_spec_from_tpcreator_uispec_def)
  have F: "set ?fts \<subseteq> set ?tags" unfolding set_map set_filter by (rule image_mono) simp
  then have c1: "\<not> (\<exists>ft \<in> set ?fts. ft \<notin> set ?tags)" by blast
  have c2: "\<not> (\<exists>p \<in> set ?ps. \<forall>t \<in> set ?tags. \<not> startswith t p)"
    unfolding ps using pre by auto
  have s: "set (?fts @ ?hits) = set ?tags"
  proof
    have "set ?hits \<subseteq> set ?tags" by auto
    with F show "set (?fts @ ?hits) \<subseteq> set ?tags"
      by (simp only: set_append Un_subset_iff simp_thms)
    show "set ?tags \<subseteq> set (?fts @ ?hits)"
    proof
      fix t assume "t \<in> set ?tags"
      then obtain d where d: "d \<in> set u" "t = tag d" by auto
      show "t \<in> set (?fts @ ?hits)"
      proof (cases "tag d = prefix d")
        case True
        with d show ?thesis by auto
      next
        case False
        with d have "prefix d \<in> set ?ps" unfolding ps by blast
        moreover from d pre have "startswith t (prefix d)" by simp
        ultimately show ?thesis using d(1,2) by (auto simp del: set_sort)
      qed
    qed
  qed
  have "sort (uniq_sameorder (?fts @ ?hits)) = sort (remdups ?tags)"
    by (rule sort_uniq_unique)
      (simp_all only: s sorted_sort distinct_sort distinct_remdups set_sort set_remdups)
  with ne c1 c2 show ?thesis
    unfolding tags_matching_wf [OF m] by (simp only: map_is_Nil_conv if_False simp_thms)
qed

lemma suggested_tags: "map tag (suggested_tpcreator_uispec tags) = tags"
  by (induction tags) (simp_all add: suggested_tpcreator_uispec_def)

lemma suggested_prefixes:
  "\<forall>d \<in> set (suggested_tpcreator_uispec tags). startswith (tag d) (prefix d)"
  by (auto simp: suggested_tpcreator_uispec_def startswith_tpcreator_prefix)

lemma roundtrip_empty:
  "tags_matching_tpcreator_spec (Some (tpcreator_spec_from_tpcreator_uispec [])) [] = Inr None"
  by (simp add: tags_matching_tpcreator_spec_def spec_is_empty_def
      tpcreator_spec_from_tpcreator_uispec_def)

text \<open>
  C4, as the code has it. For every UISpec whose entries each carry a prefix of their own
  tag, compiling it and matching the compiled spec against the list of its \<open>tag\<close> values
  returns these values deduplicated and sorted when the UISpec is not empty, and \<open>None\<close>
  when it is empty. The UISpec suggested for a tag list is such a UISpec, its \<open>tag\<close>
  values are that tag list, and so the round trip on a tag list returns the list
  deduplicated and sorted, or \<open>None\<close> for the empty list.
\<close>

theorem uispec_roundtrip_sorted:
  "((\<forall>d \<in> set u. startswith (tag d) (prefix d)) \<longrightarrow>
      tags_matching_tpcreator_spec (Some (tpcreator_spec_from_tpcreator_uispec u)) (map tag u)
        = Inr (if u = [] then None else Some (sort (remdups (map tag u)))))
   \<and> map tag (suggested_tpcreator_uispec tags) = tags
   \<and> tags_matching_tpcreator_spec
        (Some (tpcreator_spec_from_tpcreator_uispec (suggested_tpcreator_uispec tags))) tags
        = Inr (if tags = [] then None else Some (sort (remdups tags)))"
proof -
  have g: "tags_matching_tpcreator_spec (Some (tpcreator_spec_from_tpcreator_uispec v)) (map tag v)
        = Inr (if v = [] then None else Some (sort (remdups (map tag v))))"
    if "\<forall>d \<in> set v. startswith (tag d) (prefix d)" for v
  proof (cases "v = []")
    case True
    then show ?thesis by (simp add: roundtrip_empty)
  next
    case False
    from roundtrip_general [OF False that] False show ?thesis by simp
  qed
  have e: "suggested_tpcreator_uispec tags = [] \<longleftrightarrow> tags = []"
    by (simp add: suggested_tpcreator_uispec_def)
  from g [OF suggested_prefixes, of tags]
  have "tags_matching_tpcreator_spec
        (Some (tpcreator_spec_from_tpcreator_uispec (suggested_tpcreator_uispec tags))) tags
        = Inr (if tags = [] then None else Some (sort (remdups tags)))"
    by (simp add: suggested_tags e)
  with g [of u] show ?thesis by (simp add: suggested_tags)
qed

theorem uispec_roundtrip_sorted_witness:
  "list_all (\<lambda>d. startswith (tag d) (prefix d))
      [\<lparr>tag = ''b:2'', prefix = ''b:''\<rparr>, \<lparr>tag = ''a'', prefix = ''a''\<rparr>, \<lparr>tag = ''c:1'', prefix = []\<rparr>]
   \<and> tags_matching_tpcreator_spec
       (Some (tpcreator_spec_from_tpcreator_uispec
          [\<lparr>tag = ''b:2'', prefix = ''b:''\<rparr>, \<lparr>tag = ''a'', prefix = ''a''\<rparr>,
           \<lparr>tag = ''c:1'', prefix = []\<rparr>]))
       [''b:2'', ''a'', ''c:1'']
     = Inr (Some [''a'', ''b:2'', ''c:1''])
   \<and> tags_matching_tpcreator_spec
       (Some (tpcreator_spec_from_tpcreator_uispec
          (suggested_tpcreator_uispec [''b:2'', ''a'', ''b:1'', ''a''])))
       [''b:2'', ''a'', ''b:1'', ''a'']
     = Inr (Some [''a'', ''b:1'', ''b:2''])
   \<and> tags_matching_tpcreator_spec
       (Some (tpcreator_spec_from_tpcreator_uispec (suggested_tpcreator_uispec []))) []
     = Inr None"
  using uispec_roundtrip_sorted [of
      "[\<lparr>tag = ''b:2'', prefix = ''b:''\<rparr>, \<lparr>tag = ''a'', prefix = ''a''\<rparr>,
        \<lparr>tag = ''c:1'', prefix = []\<rparr>]"
      "[''b:2'', ''a'', ''b:1'', ''a'']"]
    uispec_roundtrip_sorted [of "[]" "[]"]
  by (simp add: startswith_def)

text \<open>
  C4 as stated fails for the empty UISpec, built from the empty tag list: the match
  returns \<open>None\<close>, not the (empty) list of tag values.
\<close>

theorem uispec_roundtrip_counterexample:
  "tags_matching_tpcreator_spec
       (Some (tpcreator_spec_from_tpcreator_uispec (suggested_tpcreator_uispec []))) []
     = Inr None
   \<and> tags_matching_tpcreator_spec
       (Some (tpcreator_spec_from_tpcreator_uispec (suggested_tpcreator_uispec []))) []
     \<noteq> Inr (Some (map tag (suggested_tpcreator_uispec [])))"
  by (simp add: tags_matching_tpcreator_spec_def spec_is_empty_def
      tpcreator_spec_from_tpcreator_uispec_def)

section \<open>Properties of the derived tile options\<close>

lemma map_of_dict_set [simp]: "map_of (dict_set d k v) = (map_of d)(k \<mapsto> v)"
  by (simp add: dict_set_def update_conv')

lemma map_of_dict_pop [simp]: "map_of (dict_pop d k) = (map_of d)(k := None)"
  by (simp add: dict_pop_def delete_conv')

lemma bind_err_Inr:
  "bind_err r f = Inr y \<longleftrightarrow> (\<exists>x. r = Inr x \<and> f x = Inr y)"
  by (cases r) (simp_all add: bind_err_def)

lemma bind_err_simps [simp]:
  "bind_err (Inl e) f = Inl e" "bind_err (Inr x) f = f x"
  by (simp_all add: bind_err_def)

lemma tpcreator_data_set_Inr:
  assumes "tpcreator_data_set opts k v = Inr opts'"
  shows "tpcreator_data_get opts' j = (if j = k then Some v else tpcreator_data_get opts j)"
    and "j' \<noteq> ''tpcreator_data'' \<Longrightarrow> map_of opts' j' = map_of opts j'"
    and "\<exists>d. map_of opts' ''tpcreator_data'' = Some (PDict d)"
  using assms
  by (auto simp: tpcreator_data_set_def tpcreator_data_get_def
      split: option.splits pyval.splits)

lemma tpcreator_data_set_ok:
  assumes "map_of opts ''tpcreator_data'' = Some (PDict d)"
  shows "\<exists>opts'. tpcreator_data_set opts k v = Inr opts'"
  using assms by (simp add: tpcreator_data_set_def)

lemma ensure_tpcreator_data_other:
  "j \<noteq> ''tpcreator_data'' \<Longrightarrow> map_of (ensure_tpcreator_data opts) j = map_of opts j"
  by (simp add: ensure_tpcreator_data_def)

lemma map_of_filter_keys:
  "map_of (filter (\<lambda>(k, v). P k) al) j = (if P j then map_of al j else None)"
  by (induction al) auto

lemma Tile_insert_tile_options_map:
  "map_of (Tile_insert_tile_options c cfg) j =
     (if j = ''series_configs'' then Some (series_configs_of c (cfg_series_spec_list cfg))
      else if j = ''tags'' then Some (cfg_tags cfg)
      else if j = ''tw_type'' then Some (cfg_tw_type cfg)
      else map_of (cfg_tile_options cfg) j)"
  by (simp add: Tile_insert_tile_options_def)

lemma tile_options_of_tpcreated_Inr:
  assumes "tile_options_of_tpcreated c master spec tags old = Inr opts"
  shows "map_of opts ''tw_type'' = map_of (tile_options master) ''tw_type''"
    and "map_of (tile_options master) ''tw_type'' \<noteq> None"
    and "j \<notin> excluded_master_keys \<Longrightarrow> j \<noteq> ''tpcreator_uispec'' \<Longrightarrow> j \<noteq> ''tpcreator_data''
           \<Longrightarrow> map_of opts j = map_of (tile_options master) j"
    and "map_of opts ''tags'' = Some tags"
    and "map_of opts ''tpcreator_uispec'' = None"
    and "tpcreator_data_get opts ''master_tile_id'' = Some (PUuid (tile_id master))"
    and "tpcreator_data_get opts ''master_tpcreator_uispec''
           = map_of (tile_options master) ''tpcreator_uispec''"
    and "map_of (tile_options master) ''tpcreator_uispec'' \<noteq> None"
    and "tpcreator_data_get opts ''master_tpcreator_spec'' = Some (pyval_of_spec spec)"
    and "map_of opts ''series_configs''
           = Some (series_configs_of c (series_specs_of_tpcreated c master old))"
proof -
  from assms obtain tw where tw: "map_of (tile_options master) ''tw_type'' = Some tw"
    by (auto simp: tile_options_of_tpcreated_def Let_def split: option.splits)
  define cfg where "cfg = \<lparr>cfg_tw_type = tw, cfg_tags = tags,
      cfg_series_spec_list = series_specs_of_tpcreated c master old,
      cfg_tile_options = filter (\<lambda>(k, v). k \<notin> excluded_master_keys) (tile_options master)\<rparr>"
  define o0 where "o0 = ensure_tpcreator_data (Tile_insert_tile_options c cfg)"
  from assms tw have "\<exists>o1 o2 u o3.
      (o1 = o0 \<or> (\<exists>b. tpcreator_data_set o0 ''tile_title_base'' b = Inr o1))
    \<and> tpcreator_data_set (dict_pop o1 ''tpcreator_uispec'') ''master_tile_id''
               (PUuid (tile_id master)) = Inr o2
    \<and> map_of (tile_options master) ''tpcreator_uispec'' = Some u
    \<and> tpcreator_data_set o2 ''master_tpcreator_uispec'' u = Inr o3
    \<and> tpcreator_data_set o3 ''master_tpcreator_spec'' (pyval_of_spec spec) = Inr opts"
    unfolding tile_options_of_tpcreated_def Let_def cfg_def o0_def
    by (simp add: bind_err_Inr split: option.splits if_splits) blast+
  then obtain o1 o2 u o3 where
    s1: "o1 = o0 \<or> (\<exists>b. tpcreator_data_set o0 ''tile_title_base'' b = Inr o1)"
    and s2: "tpcreator_data_set (dict_pop o1 ''tpcreator_uispec'') ''master_tile_id''
               (PUuid (tile_id master)) = Inr o2"
    and u: "map_of (tile_options master) ''tpcreator_uispec'' = Some u"
    and s3: "tpcreator_data_set o2 ''master_tpcreator_uispec'' u = Inr o3"
    and s4: "tpcreator_data_set o3 ''master_tpcreator_spec'' (pyval_of_spec spec) = Inr opts"
    by blast
  have o0: "j \<noteq> ''tpcreator_data'' \<Longrightarrow> map_of o0 j =
     (if j = ''series_configs'' then Some (series_configs_of c (cfg_series_spec_list cfg))
      else if j = ''tags'' then Some tags
      else if j = ''tw_type'' then Some tw
      else if j \<notin> excluded_master_keys then map_of (tile_options master) j else None)" for j
    by (simp add: o0_def ensure_tpcreator_data_other Tile_insert_tile_options_map cfg_def
        map_of_filter_keys)
  have o1: "j \<noteq> ''tpcreator_data'' \<Longrightarrow> map_of o1 j = map_of o0 j" for j
    using s1 tpcreator_data_set_Inr(2) by blast
  have other: "j \<noteq> ''tpcreator_data'' \<Longrightarrow> map_of opts j = ((map_of o0)(''tpcreator_uispec'' := None)) j" for j
    using tpcreator_data_set_Inr(2) [OF s4, of j] tpcreator_data_set_Inr(2) [OF s3, of j]
      tpcreator_data_set_Inr(2) [OF s2, of j] o1 [of j]
    by simp
  show "map_of opts ''tw_type'' = map_of (tile_options master) ''tw_type''"
    using other [of "''tw_type''"] o0 [of "''tw_type''"] tw by simp
  show "map_of (tile_options master) ''tw_type'' \<noteq> None" using tw by simp
  show "map_of opts ''tags'' = Some tags"
    using other [of "''tags''"] o0 [of "''tags''"] by simp
  show "map_of opts ''tpcreator_uispec'' = None"
    using other [of "''tpcreator_uispec''"] by simp
  show "map_of opts j = map_of (tile_options master) j"
    if "j \<notin> excluded_master_keys" "j \<noteq> ''tpcreator_uispec''" "j \<noteq> ''tpcreator_data''"
  proof -
    from that(1) have "j \<noteq> ''series_configs''" "j \<noteq> ''tags''"
      by (auto simp: excluded_master_keys_def)
    with that other [of j] o0 [of j] tw show ?thesis by auto
  qed
  show "tpcreator_data_get opts ''master_tile_id'' = Some (PUuid (tile_id master))"
    using tpcreator_data_set_Inr(1) [OF s4, of "''master_tile_id''"]
      tpcreator_data_set_Inr(1) [OF s3, of "''master_tile_id''"]
      tpcreator_data_set_Inr(1) [OF s2, of "''master_tile_id''"] by simp
  show "tpcreator_data_get opts ''master_tpcreator_uispec'' = map_of (tile_options master) ''tpcreator_uispec''"
    using tpcreator_data_set_Inr(1) [OF s4, of "''master_tpcreator_uispec''"]
      tpcreator_data_set_Inr(1) [OF s3, of "''master_tpcreator_uispec''"] u by simp
  show "map_of (tile_options master) ''tpcreator_uispec'' \<noteq> None" using u by simp
  show "tpcreator_data_get opts ''master_tpcreator_spec'' = Some (pyval_of_spec spec)"
    using tpcreator_data_set_Inr(1) [OF s4, of "''master_tpcreator_spec''"] by simp
  show "map_of opts ''series_configs''
           = Some (series_configs_of c (series_specs_of_tpcreated c master old))"
    using other [of "''series_configs''"] o0 [of "''series_configs''"] by (simp add: cfg_def)
qed

lemma tile_options_of_tpcreated_ok:
  assumes m: "is_master_tile master"
    and tw: "has_key (tile_options master) ''tw_type''"
    and title: "dict_get (tile_options master) ''tile_title'' = PNone
              \<or> (\<exists>s. dict_get (tile_options master) ''tile_title'' = PStr s)"
  shows "\<exists>opts. tile_options_of_tpcreated c master spec tags old = Inr opts"
proof -
  from tw obtain twv where twv: "map_of (tile_options master) ''tw_type'' = Some twv"
    by (auto simp: has_key_def)
  from m obtain u where u: "map_of (tile_options master) ''tpcreator_uispec'' = Some u"
    and nd: "map_of (tile_options master) ''tpcreator_data'' = None"
    by (auto simp: is_master_tile_def has_key_def)
  define cfg where "cfg = \<lparr>cfg_tw_type = twv, cfg_tags = tags,
      cfg_series_spec_list = series_specs_of_tpcreated c master old,
      cfg_tile_options = filter (\<lambda>(k, v). k \<notin> excluded_master_keys) (tile_options master)\<rparr>"
  define o0 where "o0 = ensure_tpcreator_data (Tile_insert_tile_options c cfg)"
  have d0: "\<exists>d. map_of o0 ''tpcreator_data'' = Some (PDict d)"
    by (simp add: o0_def ensure_tpcreator_data_def has_key_def Tile_insert_tile_options_map
        cfg_def map_of_filter_keys nd)
  have "\<exists>o1. (if truthy (dict_get (tile_options master) ''tile_title'')
               then bind_err
                      (if generate_tile_title_postfix c master \<noteq> []
                       then replace_strip (dict_get (tile_options master) ''tile_title'')
                              (generate_tile_title_postfix c master)
                       else Inr (dict_get (tile_options master) ''tile_title''))
                      (\<lambda>base. tpcreator_data_set o0 ''tile_title_base'' base)
               else Inr o0) = Inr o1 \<and> (\<exists>d. map_of o1 ''tpcreator_data'' = Some (PDict d))"
    using title d0 tpcreator_data_set_ok tpcreator_data_set_Inr(3)
    by (fastforce simp: replace_strip_def)
  then obtain o1 where o1: "(if truthy (dict_get (tile_options master) ''tile_title'')
               then bind_err
                      (if generate_tile_title_postfix c master \<noteq> []
                       then replace_strip (dict_get (tile_options master) ''tile_title'')
                              (generate_tile_title_postfix c master)
                       else Inr (dict_get (tile_options master) ''tile_title''))
                      (\<lambda>base. tpcreator_data_set o0 ''tile_title_base'' base)
               else Inr o0) = Inr o1" and d1: "\<exists>d. map_of o1 ''tpcreator_data'' = Some (PDict d)"
    by blast
  from d1 have "\<exists>d. map_of (dict_pop o1 ''tpcreator_uispec'') ''tpcreator_data'' = Some (PDict d)"
    by simp
  then obtain o2 where o2: "tpcreator_data_set (dict_pop o1 ''tpcreator_uispec'') ''master_tile_id''
               (PUuid (tile_id master)) = Inr o2"
    using tpcreator_data_set_ok by blast
  from tpcreator_data_set_Inr(3) [OF o2] obtain o3 where
    o3: "tpcreator_data_set o2 ''master_tpcreator_uispec'' u = Inr o3"
    using tpcreator_data_set_ok by blast
  from tpcreator_data_set_Inr(3) [OF o3] obtain o4 where
    o4: "tpcreator_data_set o3 ''master_tpcreator_spec'' (pyval_of_spec spec) = Inr o4"
    using tpcreator_data_set_ok by blast
  have "tile_options_of_tpcreated c master spec tags old = Inr o4"
    unfolding tile_options_of_tpcreated_def Let_def
    by (simp only: twv u option.case cfg_def [symmetric] o0_def [symmetric] o1 o2 o3 o4
        bind_err_simps)
  then show ?thesis by blast
qed



section \<open>Properties of the series list\<close>

lemma uniq_loop_filter:
  "uniq_loop key seen xs = filter (\<lambda>x. key x \<notin> set seen) (uniq_loop key [] xs)"
proof (induction xs arbitrary: seen)
  case Nil
  show ?case by simp
next
  case (Cons x xs)
  have a: "uniq_loop key [key x] xs = filter (\<lambda>y. key y \<noteq> key x) (uniq_loop key [] xs)"
    using Cons [of "[key x]"] by simp
  show ?case
  proof (cases "key x \<in> set seen")
    case True
    then have "filter (\<lambda>y. key y \<notin> set seen) (filter (\<lambda>y. key y \<noteq> key x) (uniq_loop key [] xs))
        = filter (\<lambda>y. key y \<notin> set seen) (uniq_loop key [] xs)"
      by (auto simp: filter_filter intro: filter_cong)
    with True show ?thesis using Cons [of seen] by (simp add: a)
  next
    case False
    have "filter (\<lambda>y. key y \<notin> set (key x # seen)) (uniq_loop key [] xs)
        = filter (\<lambda>y. key y \<notin> set seen) (filter (\<lambda>y. key y \<noteq> key x) (uniq_loop key [] xs))"
      by (auto simp: filter_filter intro: filter_cong)
    with False show ?thesis using Cons [of "key x # seen"] by (simp add: a)
  qed
qed

lemma uniq_loop_seen_cong:
  "set seen = set seen' \<Longrightarrow> uniq_loop key seen xs = uniq_loop key seen' xs"
  using uniq_loop_filter [of key seen xs] uniq_loop_filter [of key seen' xs] by simp

lemma uniq_loop_append:
  "uniq_loop key seen (xs @ ys) = uniq_loop key seen xs @ uniq_loop key (map key xs @ seen) ys"
proof (induction xs arbitrary: seen)
  case Nil
  show ?case by simp
next
  case (Cons x xs)
  show ?case
  proof (cases "key x \<in> set seen")
    case True
    then have "set (map key xs @ seen) = set (map key (x # xs) @ seen)" by auto
    from uniq_loop_seen_cong [OF this] True show ?thesis by (simp add: Cons)
  next
    case False
    have "set (map key xs @ key x # seen) = set (map key (x # xs) @ seen)" by auto
    from uniq_loop_seen_cong [OF this] False show ?thesis by (simp add: Cons)
  qed
qed

lemma uniq_loop_first:
  "x \<in> set (uniq_loop key seen xs) \<Longrightarrow> find (\<lambda>y. key y = key x) xs = Some x"
proof (induction xs arbitrary: seen)
  case Nil
  then show ?case by simp
next
  case (Cons a xs)
  show ?case
  proof (cases "key a \<in> set seen")
    case True
    with Cons.prems have x: "x \<in> set (uniq_loop key seen xs)" by simp
    then have "key x \<in> key ` set xs - set seen" using uniq_loop_keys [of key seen xs] by blast
    with True have "key a \<noteq> key x" by auto
    with Cons.IH [OF x] show ?thesis by simp
  next
    case False
    with Cons.prems have "x = a \<or> x \<in> set (uniq_loop key (key a # seen) xs)" by simp
    then show ?thesis
    proof
      assume "x = a" then show ?thesis by simp
    next
      assume x: "x \<in> set (uniq_loop key (key a # seen) xs)"
      then have "key x \<in> key ` set xs - set (key a # seen)"
        using uniq_loop_keys [of key "key a # seen" xs] by blast
      then have "key a \<noteq> key x" by auto
      with Cons.IH [OF x] show ?thesis by simp
    qed
  qed
qed

text \<open>
  C6. With an existing derived tile supplied, the series spec list is the master's series
  specs followed by the existing tile's, deduplicated by the canonical series-spec
  identity keeping the first occurrence: the master's deduplicated series come first,
  then the existing tile's series whose identity the master does not have; the identities
  are distinct and are those of both lists, every kept spec is the first of its identity
  in the concatenation, and this list is what the derived options store.
\<close>

theorem rederived_series_specs:
  "series_specs_of_tpcreated c master_tile (Some old) =
     uniq_sameorder_key (series_spec_for_default_options c) (series_specs c master_tile)
     @ filter (\<lambda>s. series_spec_for_default_options c s
                     \<notin> series_spec_for_default_options c ` set (series_specs c master_tile))
         (uniq_sameorder_key (series_spec_for_default_options c) (series_specs c old))
   \<and> distinct (map (series_spec_for_default_options c)
        (series_specs_of_tpcreated c master_tile (Some old)))
   \<and> series_spec_for_default_options c ` set (series_specs_of_tpcreated c master_tile (Some old))
       = series_spec_for_default_options c ` (set (series_specs c master_tile) \<union> set (series_specs c old))
   \<and> (\<forall>s \<in> set (series_specs_of_tpcreated c master_tile (Some old)).
         find (\<lambda>s'. series_spec_for_default_options c s' = series_spec_for_default_options c s)
           (series_specs c master_tile @ series_specs c old) = Some s)
   \<and> (\<forall>opts tags spec. tile_options_of_tpcreated c master_tile spec tags (Some old) = Inr opts \<longrightarrow>
         map_of opts ''series_configs''
           = Some (series_configs_of c (series_specs_of_tpcreated c master_tile (Some old))))"
proof -
  let ?key = "series_spec_for_default_options c"
  let ?ms = "series_specs c master_tile"
  let ?os = "series_specs c old"
  have e: "series_specs_of_tpcreated c master_tile (Some old) = uniq_loop ?key [] (?ms @ ?os)"
    by (simp add: series_specs_of_tpcreated_def unique_series_specs_def uniq_sameorder_key_def)
  have "uniq_loop ?key [] (?ms @ ?os) = uniq_loop ?key [] ?ms @ uniq_loop ?key (map ?key ?ms) ?os"
    using uniq_loop_append [of ?key "[]" ?ms ?os] by simp
  also have "uniq_loop ?key (map ?key ?ms) ?os
      = filter (\<lambda>s. ?key s \<notin> ?key ` set ?ms) (uniq_loop ?key [] ?os)"
    using uniq_loop_filter [of ?key "map ?key ?ms" ?os] by simp
  finally have 1: "series_specs_of_tpcreated c master_tile (Some old) =
     uniq_sameorder_key ?key ?ms @ filter (\<lambda>s. ?key s \<notin> ?key ` set ?ms) (uniq_sameorder_key ?key ?os)"
    by (simp add: e uniq_sameorder_key_def)
  have 2: "distinct (map ?key (series_specs_of_tpcreated c master_tile (Some old)))"
    unfolding e by (rule uniq_loop_distinct)
  have 3: "?key ` set (series_specs_of_tpcreated c master_tile (Some old)) = ?key ` (set ?ms \<union> set ?os)"
    unfolding e using uniq_loop_keys [of ?key "[]" "?ms @ ?os"] by simp
  have 4: "\<forall>s \<in> set (series_specs_of_tpcreated c master_tile (Some old)).
         find (\<lambda>s'. ?key s' = ?key s) (?ms @ ?os) = Some s"
    unfolding e by (intro ballI) (rule uniq_loop_first)
  have 5: "\<forall>opts tags spec. tile_options_of_tpcreated c master_tile spec tags (Some old) = Inr opts \<longrightarrow>
         map_of opts ''series_configs''
           = Some (series_configs_of c (series_specs_of_tpcreated c master_tile (Some old)))"
    using tile_options_of_tpcreated_Inr(10) by blast
  from 1 2 3 4 5 show ?thesis by blast
qed

theorem rederived_series_specs_witness:
  "series_specs_of_tpcreated example_collaborators example_master (Some example_tpcreated)
     = [PStr ''cpu'', PStr ''mem'', PStr ''disk'']
   \<and> distinct (map (series_spec_for_default_options example_collaborators)
        (series_specs_of_tpcreated example_collaborators example_master (Some example_tpcreated)))
   \<and> list_all (\<lambda>s. find (\<lambda>s'. s' = s)
                  ([PStr ''cpu'', PStr ''mem''] @ [PStr ''mem'', PStr ''disk'', PStr ''cpu''])
                = Some s)
        [PStr ''cpu'', PStr ''mem'', PStr ''disk'']"
  using rederived_series_specs [of example_collaborators example_master example_tpcreated]
  by (simp add: example_collaborators_def example_master_def example_tpcreated_def dict_get_def
      uniq_sameorder_key_def series_specs_of_tpcreated_def unique_series_specs_def)

section \<open>Properties of the promotion to master\<close>

lemma title_strip_check_str:
  assumes "dict_get opts ''tile_title'' = PStr s"
  shows "title_strip_check c tpcreated opts = Inr ()"
  using assms by (simp add: title_strip_check_def py_in_def replace_strip_def Let_def)

text \<open>
  C9. When the tpcreated tile has a non-empty \<open>tile_title\<close> of its own, the new master
  returned by \<open>make_master_from_tpcreated\<close> (which is returned whenever the two assertions
  hold and the tile has a \<open>tpcreator_data\<close> key) has this title verbatim, whether or not it
  contains the generated postfix, and the same options are what the store receives.
\<close>

theorem make_master_keeps_title:
  assumes title: "map_of (tile_options tpcreated) ''tile_title'' = Some (PStr s)" and ne: "s \<noteq> []"
  shows "(is_master_tile old_master \<and> \<not> is_master_tile tpcreated
            \<and> has_key (tile_options tpcreated) ''tpcreator_data''
          \<longrightarrow> (\<exists>t w'. make_master_from_tpcreated c old_master tpcreated w = Inr (t, w')))
       \<and> (\<forall>t w'. make_master_from_tpcreated c old_master tpcreated w = Inr (t, w') \<longrightarrow>
             map_of (tile_options t) ''tile_title'' = Some (PStr s)
           \<and> tile_store w' = tile_store w @ [((dashboard_id t, tile_id t), tile_options t)])"
proof -
  have g: "dict_get (dict_pop (dict_set (tile_options tpcreated) ''tpcreator_uispec'' u)
              ''tpcreator_data'') ''tile_title'' = PStr s" for u
    using title by (simp add: dict_get_def)
  have m: "map_of (dict_pop (dict_set (tile_options tpcreated) ''tpcreator_uispec'' u)
              ''tpcreator_data'') ''tile_title'' = Some (PStr s)" for u
    using title by simp
  have k: "has_key (dict_set (tile_options tpcreated) ''tpcreator_uispec'' u) ''tpcreator_data''
       = has_key (tile_options tpcreated) ''tpcreator_data''" for u
    by (simp add: has_key_def)
  show ?thesis
    unfolding make_master_from_tpcreated_def Let_def
    using ne title
    by (auto simp: g m k title_strip_check_str [OF g] Tile_insert_with_tile_options_def
        is_master_tile_def has_key_def
        split: option.splits)
qed

theorem make_master_keeps_title_witness:
  "map_of (tile_options example_tpcreated) ''tile_title'' = Some (PStr ''Load [x]'')
   \<and> ''Load [x]'' \<noteq> []
   \<and> is_substring (generate_tile_title_postfix example_collaborators example_tpcreated) ''Load [x]''
   \<and> py_strip (py_replace ''Load [x]''
          (generate_tile_title_postfix example_collaborators example_tpcreated) []) = ''Load''
   \<and> (\<exists>t w'. make_master_from_tpcreated example_collaborators example_master example_tpcreated
                 example_world = Inr (t, w')
        \<and> map_of (tile_options t) ''tile_title'' = Some (PStr ''Load [x]''))"
proof -
  have h: "map_of (tile_options example_tpcreated) ''tile_title'' = Some (PStr ''Load [x]'')"
    "''Load [x]'' \<noteq> []"
    by (simp_all add: example_tpcreated_def)
  have p: "is_master_tile example_master \<and> \<not> is_master_tile example_tpcreated
            \<and> has_key (tile_options example_tpcreated) ''tpcreator_data''"
    by (simp add: example_master_def example_tpcreated_def is_master_tile_def has_key_def)
  have s: "is_substring (generate_tile_title_postfix example_collaborators example_tpcreated) ''Load [x]''"
    "py_strip (py_replace ''Load [x]''
          (generate_tile_title_postfix example_collaborators example_tpcreated) []) = ''Load''"
    by (simp_all add: example_collaborators_def is_substring_def startswith_def py_strip_def
        py_replace_def is_space_def upt_rec)
  from make_master_keeps_title [OF h, of example_master example_collaborators example_world] p
  have "\<exists>t w'. make_master_from_tpcreated example_collaborators example_master example_tpcreated
                 example_world = Inr (t, w')
        \<and> map_of (tile_options t) ''tile_title'' = Some (PStr ''Load [x]'')"
    by blast
  with h s show ?thesis by blast
qed

section \<open>Properties of the size synchronization\<close>

lemma synchronize_loop_eq:
  assumes "\<forall>(tid, vo) \<in> set items. tid \<noteq> mid \<longrightarrow> get_tile_props lay tid \<noteq> None"
  shows "synchronize_loop lay mid mvo items (done, changed) =
     Inr (done @ synchronized_dict lay mid mvo items,
          changed \<or> (\<exists>(tid, vo) \<in> set items. is_tpcreated_of lay mid tid \<and>
                       (vo_width vo \<noteq> vo_width mvo \<or> vo_height vo \<noteq> vo_height mvo)))"
  using assms
proof (induction items arbitrary: "done" changed)
  case Nil
  show ?case by (simp add: synchronized_dict_def)
next
  case (Cons it items)
  obtain tid vo where it: "it = (tid, vo)" by (cases it)
  from Cons.prems
  have r: "\<forall>(tid, vo) \<in> set items. tid \<noteq> mid \<longrightarrow> get_tile_props lay tid \<noteq> None"
    by simp
  note ih = Cons.IH [OF r]
  show ?case
  proof (cases "tid = mid")
    case True
    then have "\<not> is_tpcreated_of lay mid tid" by (simp add: is_tpcreated_of_def)
    with True show ?thesis
      by (auto simp: it ih synchronized_dict_def)
  next
    case ne: False
    with Cons.prems it obtain props where p: "get_tile_props lay tid = Some props" by auto
    show ?thesis
    proof (cases "is_tpcreated_of lay mid tid")
      case True
      with p have c: "props_master_id props = Some mid"
        by (simp add: is_tpcreated_of_def)
      have v: "(if vo_height (if vo_width vo \<noteq> vo_width mvo then vo\<lparr>vo_width := vo_width mvo\<rparr> else vo)
                     \<noteq> vo_height mvo
                then (if vo_width vo \<noteq> vo_width mvo then vo\<lparr>vo_width := vo_width mvo\<rparr> else vo)
                       \<lparr>vo_height := vo_height mvo\<rparr>
                else (if vo_width vo \<noteq> vo_width mvo then vo\<lparr>vo_width := vo_width mvo\<rparr> else vo))
             = vo\<lparr>vo_width := vo_width mvo, vo_height := vo_height mvo\<rparr>"
        by (cases vo) auto
      show ?thesis
        using True c ne
        by (auto simp: it p ih Let_def v synchronized_dict_def)
    next
      case False
      with p ne have c: "props_master_id props \<noteq> Some mid"
        by (simp add: is_tpcreated_of_def)
      show ?thesis
        using False c ne
        by (auto simp: it p ih synchronized_dict_def)
    qed
  qed
qed

text \<open>
  C7. In a layout that has the props of each placed tile other than the master,
  \<open>do_synchronize\<close>
  raises \<open>LayoutModificationImpossible\<close> when the master has no placement, and when every
  tile whose \<open>master_id\<close> is the master's id already has the master's width and height;
  when one of them differs, these tiles get the width and height of the master's
  placement and the result is that of \<open>repack_mod\<close> followed by \<open>pack_upwards_mod\<close> on
  the rewritten layout.
\<close>

theorem synchronize_sizes:
  assumes props: "\<forall>(tid, vo) \<in> set (layout_dict (lay layout_mod)).
                     tid \<noteq> tile_id master_tile \<longrightarrow>
                     get_tile_props (lay layout_mod) tid \<noteq> None"
  shows "(map_of (layout_dict (lay layout_mod)) (tile_id master_tile) = None \<longrightarrow>
            do_synchronize c lay set_layout master_tile layout_mod = Inl LayoutModificationImpossible)
       \<and> (\<forall>master_vo. map_of (layout_dict (lay layout_mod)) (tile_id master_tile) = Some master_vo \<longrightarrow>
            (if \<forall>(tid, vo) \<in> set (layout_dict (lay layout_mod)).
                  is_tpcreated_of (lay layout_mod) (tile_id master_tile) tid \<longrightarrow>
                  vo_width vo = vo_width master_vo \<and> vo_height vo = vo_height master_vo
             then do_synchronize c lay set_layout master_tile layout_mod
                    = Inl LayoutModificationImpossible
             else do_synchronize c lay set_layout master_tile layout_mod
                    = bind_err
                        (repack_mod c
                          (set_layout ((lay layout_mod)\<lparr>layout_dict :=
                              synchronized_dict (lay layout_mod) (tile_id master_tile) master_vo
                                (layout_dict (lay layout_mod))\<rparr>) layout_mod))
                        (pack_upwards_mod c)))"
  using synchronize_loop_eq [OF props, of _ "[]" False]
  by (auto simp: do_synchronize_def)

theorem synchronize_sizes_witness:
  "list_all (\<lambda>(tid, vo). tid = tile_id example_master \<or> get_tile_props example_layout tid \<noteq> None)
      (layout_dict example_layout)
   \<and> map_of (layout_dict example_layout) (tile_id example_master)
        = Some \<lparr>vo_x = 0, vo_y = 0, vo_width = 4, vo_height = 3\<rparr>
   \<and> do_synchronize example_collaborators (\<lambda>lm. lm) (\<lambda>l lm. l) example_master example_layout
        = Inr (example_layout\<lparr>layout_dict :=
            [(1, \<lparr>vo_x = 0, vo_y = 0, vo_width = 4, vo_height = 3\<rparr>),
             (2, \<lparr>vo_x = 4, vo_y = 0, vo_width = 4, vo_height = 3\<rparr>),
             (5, \<lparr>vo_x = 0, vo_y = 3, vo_width = 6, vo_height = 1\<rparr>)]\<rparr>)"
proof -
  have h: "\<forall>(tid, vo) \<in> set (layout_dict example_layout).
             tid \<noteq> tile_id example_master \<longrightarrow> get_tile_props example_layout tid \<noteq> None"
    by (simp add: example_layout_def get_tile_props_def)
  have m: "map_of (layout_dict example_layout) (tile_id example_master)
        = Some \<lparr>vo_x = 0, vo_y = 0, vo_width = 4, vo_height = 3\<rparr>"
    by (simp add: example_layout_def example_master_def)
  from synchronize_sizes [of "\<lambda>lm. lm" example_layout example_master example_collaborators "\<lambda>l lm. l", OF h] m
  show ?thesis
    using h
    by (simp add: example_layout_def example_master_def example_collaborators_def
        is_tpcreated_of_def get_tile_props_def synchronized_dict_def)
qed

lemma synchronize_sizes_noop_example:
  "do_synchronize example_collaborators (\<lambda>lm. lm) (\<lambda>l lm. l) example_tpcreated example_layout
        = Inl LayoutModificationImpossible"
  by (simp add: do_synchronize_def example_layout_def example_tpcreated_def get_tile_props_def)

section \<open>Properties of the TPCreator mod\<close>

lemma get_tpcreator_data_loop_step_tags:
  "\<exists>specs' tg'.
     get_tpcreator_data_loop ((tid, props) # items) rid (specs, tg)
       = get_tpcreator_data_loop items rid (specs', tg')
     \<and> (\<forall>mid. tg' mid = tg mid \<union>
            (if recorded_for rid mid (tid, props) then {sorted_tags_of (tid, props)} else {}))"
proof (cases "props_report_id props = rid")
  case False
  then show ?thesis by (auto simp: recorded_for_def)
next
  case True
  show ?thesis
  proof (cases "props_is_master props")
    case m: True
    with True have "get_tpcreator_data_loop ((tid, props) # items) rid (specs, tg)
       = get_tpcreator_data_loop items rid (AList.update tid (props_tpcreator_spec props) specs,
              tg(tid := insert (sort (props_tags props)) (tg tid)))" by simp
    moreover have "\<forall>mid. (tg(tid := insert (sort (props_tags props)) (tg tid))) mid = tg mid \<union>
            (if recorded_for rid mid (tid, props) then {sorted_tags_of (tid, props)} else {})"
      using True m by (auto simp: recorded_for_def sorted_tags_of_def)
    ultimately show ?thesis by blast
  next
    case m: False
    show ?thesis
    proof (cases "props_master_id props")
      case None
      with True m show ?thesis by (auto simp: recorded_for_def)
    next
      case (Some x)
      with True m have "get_tpcreator_data_loop ((tid, props) # items) rid (specs, tg)
       = get_tpcreator_data_loop items rid
           (specs, tg(x := insert (sort (props_tags props)) (tg x)))" by simp
      moreover have "\<forall>mid. (tg(x := insert (sort (props_tags props)) (tg x))) mid = tg mid \<union>
            (if recorded_for rid mid (tid, props) then {sorted_tags_of (tid, props)} else {})"
        using True m Some by (auto simp: recorded_for_def sorted_tags_of_def)
      ultimately show ?thesis by blast
    qed
  qed
qed

lemma get_tpcreator_data_loop_tags:
  "snd (get_tpcreator_data_loop items rid (specs, tg)) mid
     = tg mid \<union> sorted_tags_of ` {it \<in> set items. recorded_for rid mid it}"
proof (induction items arbitrary: specs tg)
  case Nil
  show ?case by simp
next
  case (Cons it items)
  obtain tid props where it: "it = (tid, props)" by (cases it)
  from get_tpcreator_data_loop_step_tags [of tid props items rid specs tg]
  obtain specs' tg' where
    e: "get_tpcreator_data_loop (it # items) rid (specs, tg)
          = get_tpcreator_data_loop items rid (specs', tg')"
    and t: "tg' mid = tg mid \<union>
            (if recorded_for rid mid it then {sorted_tags_of it} else {})"
    unfolding it by blast
  have "snd (get_tpcreator_data_loop (it # items) rid (specs, tg)) mid
      = tg' mid \<union> sorted_tags_of ` {it \<in> set items. recorded_for rid mid it}"
    unfolding e by (rule Cons.IH)
  also have "\<dots> = tg mid \<union> sorted_tags_of ` {i \<in> set (it # items). recorded_for rid mid i}"
    unfolding t by auto
  finally show ?case .
qed

lemma get_tpcreator_data_loop_step:
  "\<exists>specs' tg'.
     get_tpcreator_data_loop ((tid, props) # items) rid (specs, tg)
       = get_tpcreator_data_loop items rid (specs', tg')
     \<and> (specs' = specs \<or>
          (props_report_id props = rid \<and> props_is_master props
             \<and> specs' = AList.update tid (props_tpcreator_spec props) specs))"
  by (cases "props_master_id props") auto

lemma in_update_cases:
  "(k, v) \<in> set (AList.update k' v' al) \<Longrightarrow> (k, v) \<in> set al \<or> (k = k' \<and> v = v')"
  by (induction al) (auto split: if_splits)

lemma get_tpcreator_data_loop_specs:
  assumes "(mid, spec) \<in> set (fst (get_tpcreator_data_loop items rid (specs, tg)))"
  shows "(mid, spec) \<in> set specs \<or>
         (\<exists>props. (mid, props) \<in> set items \<and> props_report_id props = rid \<and> props_is_master props
             \<and> spec = props_tpcreator_spec props)"
  using assms
proof (induction items arbitrary: specs tg)
  case Nil
  then show ?case by simp
next
  case (Cons it items)
  obtain tid props where it: "it = (tid, props)" by (cases it)
  from get_tpcreator_data_loop_step [of tid props items rid specs tg]
  obtain specs' tg' where
    e: "get_tpcreator_data_loop (it # items) rid (specs, tg)
          = get_tpcreator_data_loop items rid (specs', tg')"
    and c: "specs' = specs \<or>
          (props_report_id props = rid \<and> props_is_master props
             \<and> specs' = AList.update tid (props_tpcreator_spec props) specs)"
    unfolding it by blast
  from Cons.prems e have "(mid, spec) \<in> set (fst (get_tpcreator_data_loop items rid (specs', tg')))"
    by simp
  from Cons.IH [OF this] have "(mid, spec) \<in> set specs' \<or>
         (\<exists>props. (mid, props) \<in> set items \<and> props_report_id props = rid \<and> props_is_master props
             \<and> spec = props_tpcreator_spec props)" .
  then show ?case
  proof
    assume "(mid, spec) \<in> set specs'"
    with c in_update_cases [of mid spec tid "props_tpcreator_spec props" specs]
    show ?thesis unfolding it by auto
  next
    assume "\<exists>props. (mid, props) \<in> set items \<and> props_report_id props = rid \<and> props_is_master props
             \<and> spec = props_tpcreator_spec props"
    then show ?thesis by auto
  qed
qed

lemma get_tpcreator_data_loop_distinct:
  "distinct (map fst specs) \<Longrightarrow>
   distinct (map fst (fst (get_tpcreator_data_loop items rid (specs, tg))))"
proof (induction items arbitrary: specs tg)
  case Nil
  then show ?case by simp
next
  case (Cons it items)
  obtain tid props where it: "it = (tid, props)" by (cases it)
  from get_tpcreator_data_loop_step [of tid props items rid specs tg]
  obtain specs' tg' where
    e: "get_tpcreator_data_loop (it # items) rid (specs, tg)
          = get_tpcreator_data_loop items rid (specs', tg')"
    and c: "specs' = specs \<or>
          (props_report_id props = rid \<and> props_is_master props
             \<and> specs' = AList.update tid (props_tpcreator_spec props) specs)"
    unfolding it by blast
  from c Cons.prems have "distinct (map fst specs')" by (auto simp: distinct_update)
  from Cons.IH [OF this] show ?case unfolding e .
qed

lemma get_tpcreator_data_tags:
  "get_tpcreator_data lay rid = (specs, tg) \<Longrightarrow>
   tg mid = sorted_tags_of ` set (recorded_tiles lay rid mid)"
  using get_tpcreator_data_loop_tags [of "layout_props lay" rid "[]" "\<lambda>_. {}" mid]
  by (simp add: get_tpcreator_data_def get_current_props_by_tile_id_def recorded_tiles_def)

lemma get_tpcreator_data_specs:
  assumes "get_tpcreator_data lay rid = (specs, tg)" and "(mid, spec) \<in> set specs"
  shows "\<exists>props. (mid, props) \<in> set (layout_props lay) \<and> props_report_id props = rid
            \<and> props_is_master props \<and> spec = props_tpcreator_spec props
            \<and> sort (props_tags props) \<in> tg mid"
proof -
  from assms get_tpcreator_data_loop_specs [of mid spec "layout_props lay" rid "[]" "\<lambda>_. {}"]
  obtain props where p: "(mid, props) \<in> set (layout_props lay)" "props_report_id props = rid"
    "props_is_master props" "spec = props_tpcreator_spec props"
    by (auto simp: get_tpcreator_data_def get_current_props_by_tile_id_def)
  then have "(mid, props) \<in> set (recorded_tiles lay rid mid)"
    by (simp add: recorded_tiles_def recorded_for_def)
  then have "sorted_tags_of (mid, props) \<in> tg mid"
    unfolding get_tpcreator_data_tags [OF assms(1)] by (rule imageI)
  with p show ?thesis by (auto simp: sorted_tags_of_def)
qed

lemma get_tpcreator_data_distinct:
  "get_tpcreator_data lay rid = (specs, tg) \<Longrightarrow> distinct (map fst specs)"
  using get_tpcreator_data_loop_distinct [of "[]" "layout_props lay" rid "\<lambda>_. {}"]
  by (simp add: get_tpcreator_data_def get_current_props_by_tile_id_def)

lemma tpcreator_master_step_store:
  assumes "tpcreator_master_step c ri row maxc tg (mid, spec) (w, lm) = (err, w', lm')"
  shows "tile_store w' = tile_store w
       \<or> (\<exists>r. tile_store w' = tile_store w @ [r] \<and> created_for ri maxc tg (mid, spec) r)"
proof -
  have sel: "Tile_select w d mid = Some master \<Longrightarrow> tile_id master = mid" for d master
    by (auto simp: Tile_select_def)
  show ?thesis
    using assms
    unfolding tpcreator_master_step_def Let_def
    by (auto simp: created_for_def no_matching_tags_def Tile_insert_with_tile_options_def
        tile_options_of_tpcreated_Inr(4) tile_options_of_tpcreated_Inr(6) sel
        split: if_splits sum.splits option.splits)
qed

lemma tpcreator_masters_loop_store:
  assumes "tpcreator_masters_loop c ri row maxc tg items (w, lm) = (err, w', lm')"
    and "distinct (map fst items)"
  shows "\<exists>created. tile_store w' = tile_store w @ created
       \<and> (\<forall>r \<in> set created. \<exists>item \<in> set items. created_for ri maxc tg item r)
       \<and> distinct (map master_link created)"
  using assms
proof (induction items arbitrary: w lm)
  case Nil
  then show ?case by simp
next
  case (Cons item items)
  obtain mid spec where item: "item = (mid, spec)" by (cases item)
  obtain e1 w1 lm1 where s: "tpcreator_master_step c ri row maxc tg item (w, lm) = (e1, w1, lm1)"
    by (cases "tpcreator_master_step c ri row maxc tg item (w, lm)") auto
  from tpcreator_master_step_store [OF s [unfolded item]]
  obtain c1 where c1: "tile_store w1 = tile_store w @ c1"
    and c1p: "c1 = [] \<or> (\<exists>r. c1 = [r] \<and> created_for ri maxc tg (mid, spec) r)"
    by auto
  show ?case
  proof (cases e1)
    case (Some e)
    with Cons.prems(1) s have "w' = w1" by simp
    with c1 c1p show ?thesis unfolding item by auto
  next
    case None
    with Cons.prems(1) s
    have r: "tpcreator_masters_loop c ri row maxc tg items (w1, lm1) = (err, w', lm')" by simp
    from Cons.prems(2) have d: "distinct (map fst items)" and nm: "mid \<notin> fst ` set items"
      unfolding item by auto
    from Cons.IH [OF r d] obtain c2 where c2: "tile_store w' = tile_store w1 @ c2"
      and c2p: "\<forall>r \<in> set c2. \<exists>item \<in> set items. created_for ri maxc tg item r"
      and c2d: "distinct (map master_link c2)" by blast
    have l2: "\<forall>r \<in> set c2. master_link r \<in> (\<lambda>i. Some (PUuid (fst i))) ` set items"
    proof
      fix r assume "r \<in> set c2"
      with c2p obtain i where i: "i \<in> set items" "created_for ri maxc tg i r" by blast
      from i(2) have "master_link r = Some (PUuid (fst i))"
        by (cases i) (auto simp: created_for_def master_link_def)
      with i(1) show "master_link r \<in> (\<lambda>i. Some (PUuid (fst i))) ` set items"
        by (simp add: image_iff) blast
    qed
    have l1: "\<forall>r \<in> set c1. master_link r = Some (PUuid mid)"
      using c1p by (auto simp: created_for_def master_link_def)
    have "master_link a \<noteq> master_link b" if ab: "a \<in> set c1" "b \<in> set c2" for a b
    proof -
      from l1 ab have a: "master_link a = Some (PUuid mid)" by blast
      from l2 ab obtain i where i: "i \<in> set items" "master_link b = Some (PUuid (fst i))"
        by blast
      from i(1) nm have "fst i \<noteq> mid" by blast
      with a i(2) show ?thesis by simp
    qed
    then have "set (map master_link c1) \<inter> set (map master_link c2) = {}"
      by auto
    moreover from c1p have "distinct (map master_link c1)" by auto
    ultimately have "distinct (map master_link (c1 @ c2))" using c2d by simp
    moreover have "tile_store w' = tile_store w @ (c1 @ c2)" using c1 c2 by simp
    moreover have "\<forall>r \<in> set (c1 @ c2). \<exists>i \<in> set (item # items). created_for ri maxc tg i r"
      using c1p c2p unfolding item by auto
    ultimately show ?thesis by blast
  qed
qed

lemma card_recorded:
  assumes "S = sorted_tags_of ` set xs" and "distinct (map sorted_tags_of xs)"
  shows "card S = length xs"
  using assms distinct_card [of "map sorted_tags_of xs"] by simp

text \<open>
  C1. In a run of \<open>do_tpcreator_mod\<close> the store only grows, by the rows the run creates.
  Every created row belongs to a master of the layout with its spec; the set recorded for
  this master holds the sorted tags of the master itself and of the tiles created from it,
  it has fewer than \<open>max_tpcreated\<close> members, the match of the master's spec against
  \<open>all_tags\<close> returns a non-empty list that is not in the set, and the row has this list
  as its tags and the master as its master. Consequently the set with the new member has
  at most \<open>max_tpcreated\<close> members, the recorded tiles with the new one are at most
  \<open>max_tpcreated\<close> when their sorted tags are distinct, and a run creates at most one row
  per master.
\<close>

theorem tpcreator_mod_creates:
  assumes run: "do_tpcreator_mod c lay ri row max_tpcreated (w, lm) = (err, w', lm')"
    and data: "get_tpcreator_data (lay lm) (ri_report_id ri) = (specs, tg)"
  shows "\<exists>created. tile_store w' = tile_store w @ created
     \<and> (\<forall>r \<in> set created. \<exists>mid spec m props.
            (mid, spec) \<in> set specs
          \<and> (mid, props) \<in> set (layout_props (lay lm)) \<and> props_is_master props
          \<and> spec = props_tpcreator_spec props
          \<and> sort (props_tags props) \<in> tg mid
          \<and> tg mid = sorted_tags_of ` set (recorded_tiles (lay lm) (ri_report_id ri) mid)
          \<and> card (tg mid) < max_tpcreated
          \<and> tags_matching_tpcreator_spec spec (all_tags ri) = Inr (Some m) \<and> m \<noteq> []
          \<and> m \<notin> tg mid
          \<and> map_of (snd r) ''tags'' = Some (pyval_of_tags m)
          \<and> master_link r = Some (PUuid mid)
          \<and> card (insert m (tg mid)) \<le> max_tpcreated
          \<and> (distinct (map sorted_tags_of (recorded_tiles (lay lm) (ri_report_id ri) mid))
                \<longrightarrow> Suc (length (recorded_tiles (lay lm) (ri_report_id ri) mid)) \<le> max_tpcreated))
     \<and> distinct (map master_link created)"
proof (cases "specs = []")
  case True
  with run data have "tile_store w' = tile_store w"
    by (auto simp: do_tpcreator_mod_def)
  then show ?thesis by simp
next
  case False
  with run data have l: "tpcreator_masters_loop c ri row max_tpcreated tg specs (w, lm) = (err, w', lm')"
    by (simp add: do_tpcreator_mod_def)
  from tpcreator_masters_loop_store [OF l get_tpcreator_data_distinct [OF data]]
  obtain created where c: "tile_store w' = tile_store w @ created"
    and p: "\<forall>r \<in> set created. \<exists>item \<in> set specs. created_for ri max_tpcreated tg item r"
    and d: "distinct (map master_link created)" by blast
  have "\<exists>mid spec m props.
            (mid, spec) \<in> set specs
          \<and> (mid, props) \<in> set (layout_props (lay lm)) \<and> props_is_master props
          \<and> spec = props_tpcreator_spec props
          \<and> sort (props_tags props) \<in> tg mid
          \<and> tg mid = sorted_tags_of ` set (recorded_tiles (lay lm) (ri_report_id ri) mid)
          \<and> card (tg mid) < max_tpcreated
          \<and> tags_matching_tpcreator_spec spec (all_tags ri) = Inr (Some m) \<and> m \<noteq> []
          \<and> m \<notin> tg mid
          \<and> map_of (snd r) ''tags'' = Some (pyval_of_tags m)
          \<and> master_link r = Some (PUuid mid)
          \<and> card (insert m (tg mid)) \<le> max_tpcreated
          \<and> (distinct (map sorted_tags_of (recorded_tiles (lay lm) (ri_report_id ri) mid))
                \<longrightarrow> Suc (length (recorded_tiles (lay lm) (ri_report_id ri) mid)) \<le> max_tpcreated)"
    if r: "r \<in> set created" for r
  proof -
    from p r obtain mid spec where i: "(mid, spec) \<in> set specs"
      and cf: "created_for ri max_tpcreated tg (mid, spec) r" by auto
    from cf obtain m where m: "card (tg mid) < max_tpcreated"
      "tags_matching_tpcreator_spec spec (all_tags ri) = Inr (Some m)" "m \<noteq> []" "m \<notin> tg mid"
      "map_of (snd r) ''tags'' = Some (pyval_of_tags m)"
      "master_link r = Some (PUuid mid)"
      by (auto simp: created_for_def master_link_def)
    from get_tpcreator_data_specs [OF data i] obtain props where
      pr: "(mid, props) \<in> set (layout_props (lay lm))" "props_is_master props"
        "spec = props_tpcreator_spec props" "sort (props_tags props) \<in> tg mid" by blast
    note t = get_tpcreator_data_tags [OF data, of mid]
    have fin: "finite (tg mid)" unfolding t by simp
    with m(1,4) have ci: "card (insert m (tg mid)) \<le> max_tpcreated" by simp
    have "Suc (length (recorded_tiles (lay lm) (ri_report_id ri) mid)) \<le> max_tpcreated"
      if "distinct (map sorted_tags_of (recorded_tiles (lay lm) (ri_report_id ri) mid))"
      using card_recorded [OF t that] m(1) by simp
    with i m pr t ci show ?thesis by blast
  qed
  with c d show ?thesis by blast
qed

theorem tpcreator_mod_creates_witness:
  "\<exists>created.
     tile_store (fst (snd (do_tpcreator_mod example_collaborators (\<lambda>lm. lm) example_report_instance
            example_layout_row 5 (example_world, example_layout))))
       = tile_store example_world @ created
   \<and> created \<noteq> []
   \<and> (\<forall>r \<in> set created. \<exists>mid spec m.
          (mid, spec) \<in> set (fst (get_tpcreator_data example_layout (ri_report_id example_report_instance)))
        \<and> card (snd (get_tpcreator_data example_layout (ri_report_id example_report_instance)) mid) < 5
        \<and> tags_matching_tpcreator_spec spec (all_tags example_report_instance) = Inr (Some m)
        \<and> m \<notin> snd (get_tpcreator_data example_layout (ri_report_id example_report_instance)) mid
        \<and> map_of (snd r) ''tags'' = Some (pyval_of_tags m)
        \<and> master_link r = Some (PUuid mid))"
proof -
  let ?R = "do_tpcreator_mod example_collaborators (\<lambda>lm. lm) example_report_instance
            example_layout_row 5 (example_world, example_layout)"
  let ?D = "get_tpcreator_data example_layout (ri_report_id example_report_instance)"
  have run: "?R = (fst ?R, fst (snd ?R), snd (snd ?R))" by simp
  have data: "get_tpcreator_data ((\<lambda>lm. lm) example_layout) (ri_report_id example_report_instance)
      = (fst ?D, snd ?D)" by simp
  from tpcreator_mod_creates [OF run data]
  obtain created where c: "tile_store (fst (snd ?R)) = tile_store example_world @ created"
    and p: "\<forall>r \<in> set created. \<exists>mid spec m props.
            (mid, spec) \<in> set (fst ?D)
          \<and> (mid, props) \<in> set (layout_props example_layout) \<and> props_is_master props
          \<and> spec = props_tpcreator_spec props
          \<and> sort (props_tags props) \<in> snd ?D mid
          \<and> snd ?D mid = sorted_tags_of ` set (recorded_tiles example_layout (ri_report_id example_report_instance) mid)
          \<and> card (snd ?D mid) < 5
          \<and> tags_matching_tpcreator_spec spec (all_tags example_report_instance) = Inr (Some m) \<and> m \<noteq> []
          \<and> m \<notin> snd ?D mid
          \<and> map_of (snd r) ''tags'' = Some (pyval_of_tags m)
          \<and> master_link r = Some (PUuid mid)
          \<and> card (insert m (snd ?D mid)) \<le> 5
          \<and> (distinct (map sorted_tags_of (recorded_tiles example_layout (ri_report_id example_report_instance) mid))
                \<longrightarrow> Suc (length (recorded_tiles example_layout (ri_report_id example_report_instance) mid)) \<le> 5)"
    by blast
  have "length (tile_store (fst (snd ?R))) = 3" by code_simp
  moreover have "length (tile_store example_world) = 2" by (simp add: example_world_def)
  ultimately have "created \<noteq> []" using c by auto
  with c p show ?thesis by blast
qed

lemma tpcreator_master_step_no_match:
  assumes "tags_matching_tpcreator_spec spec (all_tags ri) = Inr m" and "no_matching_tags m"
  shows "tpcreator_master_step c ri row maxc tg (mid, spec) (w, lm) = (None, w, lm)"
  using assms by (simp add: tpcreator_master_step_def Let_def)

text \<open>
  C10. The spec compiled from the empty UISpec is a non-empty dictionary with two empty
  lists; matched against a non-empty tag list it gives the empty list, not \<open>None\<close>. The
  truth test of \<open>do_tpcreator_mod\<close> takes the empty list as it takes \<open>None\<close>: the step for
  such a master leaves the store and the layout as they are, as it does for any spec
  whose match is \<open>None\<close>.
\<close>

theorem empty_uispec_spec_matches_nothing:
  assumes "tags \<noteq> []"
  shows "tags_matching_tpcreator_spec (Some (tpcreator_spec_from_tpcreator_uispec [])) tags
           = Inr (Some [])
       \<and> \<not> spec_is_empty (Some (tpcreator_spec_from_tpcreator_uispec []))
       \<and> no_matching_tags (Some []) \<and> no_matching_tags None
       \<and> (all_tags ri = tags \<longrightarrow>
            tpcreator_master_step c ri row maxc tg
              (mid, Some (tpcreator_spec_from_tpcreator_uispec [])) (w, lm) = (None, w, lm)
          \<and> (\<forall>spec'. tags_matching_tpcreator_spec spec' tags = Inr None \<longrightarrow>
                tpcreator_master_step c ri row maxc tg (mid, spec') (w, lm)
                  = tpcreator_master_step c ri row maxc tg
                      (mid, Some (tpcreator_spec_from_tpcreator_uispec [])) (w, lm)))"
proof -
  have m: "tags_matching_tpcreator_spec (Some (tpcreator_spec_from_tpcreator_uispec [])) tags
           = Inr (Some [])"
    using assms
    by (simp add: tags_matching_tpcreator_spec_def spec_is_empty_def
        tpcreator_spec_from_tpcreator_uispec_def uniq_sameorder_def uniq_sameorder_key_def)
  have e: "\<not> spec_is_empty (Some (tpcreator_spec_from_tpcreator_uispec []))"
    by (simp add: spec_is_empty_def tpcreator_spec_from_tpcreator_uispec_def)
  have n: "no_matching_tags (Some [])" "no_matching_tags None"
    by (simp_all add: no_matching_tags_def)
  have s: "tpcreator_master_step c ri row maxc tg
              (mid, Some (tpcreator_spec_from_tpcreator_uispec [])) (w, lm) = (None, w, lm)"
    if "all_tags ri = tags"
    using tpcreator_master_step_no_match [of "Some (tpcreator_spec_from_tpcreator_uispec [])" ri "Some []"]
      m n(1) that by simp
  have s': "tpcreator_master_step c ri row maxc tg (mid, spec') (w, lm) = (None, w, lm)"
    if "all_tags ri = tags" "tags_matching_tpcreator_spec spec' tags = Inr None" for spec'
    using tpcreator_master_step_no_match [of spec' ri None] n(2) that by simp
  from m e n s s' show ?thesis by simp
qed

theorem empty_uispec_spec_matches_nothing_witness:
  "[''host:1'', ''env:qa''] \<noteq> []
   \<and> tags_matching_tpcreator_spec (Some (tpcreator_spec_from_tpcreator_uispec []))
        [''host:1'', ''env:qa''] = Inr (Some [])
   \<and> all_tags example_report_instance = [''host:1'', ''env:qa'']
   \<and> tpcreator_master_step example_collaborators example_report_instance example_layout_row 5
        (snd (get_tpcreator_data example_layout 11))
        (1, Some (tpcreator_spec_from_tpcreator_uispec [])) (example_world, example_layout)
      = (None, example_world, example_layout)"
  using empty_uispec_spec_matches_nothing [of "[''host:1'', ''env:qa'']" example_report_instance
      example_collaborators example_layout_row 5 "snd (get_tpcreator_data example_layout 11)" 1
      example_world example_layout]
  by (simp add: example_report_instance_def)

section \<open>Properties of the replacement of tpcreated tiles\<close>

lemma sync_tpcreator_data_Inr:
  assumes "sync_tpcreator_data master t spec = Inr opts"
  shows "tpcreator_data_get opts ''master_tile_id'' = Some (PUuid (tile_id master))"
    and "map_of opts ''tags'' = map_of (tile_options t) ''tags''"
proof -
  from assms obtain o1 u o2 where
    s1: "tpcreator_data_set (ensure_tpcreator_data (tile_options t)) ''master_tile_id''
          (PUuid (tile_id master)) = Inr o1"
    and s2: "tpcreator_data_set o1 ''master_tpcreator_uispec'' u = Inr o2"
    and s3: "tpcreator_data_set o2 ''master_tpcreator_spec'' (pyval_of_spec spec) = Inr opts"
    unfolding sync_tpcreator_data_def
    by (auto simp: bind_err_Inr split: option.splits)
  show "tpcreator_data_get opts ''master_tile_id'' = Some (PUuid (tile_id master))"
    using tpcreator_data_set_Inr(1) [OF s3, of "''master_tile_id''"]
      tpcreator_data_set_Inr(1) [OF s2, of "''master_tile_id''"]
      tpcreator_data_set_Inr(1) [OF s1, of "''master_tile_id''"] by simp
  show "map_of opts ''tags'' = map_of (tile_options t) ''tags''"
    using tpcreator_data_set_Inr(2) [OF s3, of "''tags''"]
      tpcreator_data_set_Inr(2) [OF s2, of "''tags''"]
      tpcreator_data_set_Inr(2) [OF s1, of "''tags''"]
      ensure_tpcreator_data_other [of "''tags''" "tile_options t"] by simp
qed

lemma replacement_options_loop_Inr:
  assumes "replacement_options_loop c new_master spec sync tiles = Inr tos"
  shows "list_all2 (replaces new_master) tiles tos"
  using assms
proof (induction tiles arbitrary: tos)
  case Nil
  then show ?case by simp
next
  case (Cons t tiles)
  from Cons.prems obtain opts rest where
    h: "(if sync
        then bind_err (tile_tags t)
               (\<lambda>tags. tile_options_of_tpcreated c new_master spec tags (Some t))
        else sync_tpcreator_data new_master t spec) = Inr opts"
    and r: "replacement_options_loop c new_master spec sync tiles = Inr rest"
    and e: "tos = opts # rest"
    by (auto simp: bind_err_Inr)
  have "replaces new_master t opts"
  proof (cases sync)
    case True
    with h obtain tags where tg: "tile_tags t = Inr tags"
      and o: "tile_options_of_tpcreated c new_master spec tags (Some t) = Inr opts"
      by (auto simp: bind_err_Inr)
    from tg have "map_of (tile_options t) ''tags'' = Some tags"
      by (auto simp: tile_tags_def split: option.splits)
    with tile_options_of_tpcreated_Inr(4,6) [OF o] show ?thesis by (simp add: replaces_def)
  next
    case False
    with h have "sync_tpcreator_data new_master t spec = Inr opts" by simp
    from sync_tpcreator_data_Inr [OF this] show ?thesis by (simp add: replaces_def)
  qed
  with Cons.IH [OF r] e show ?case by simp
qed

lemma insert_multi_options:
  "Tile_insert_with_tile_options_multi w d tos = (ts, w') \<Longrightarrow> map tile_options ts = tos"
proof (induction tos arbitrary: w ts)
  case Nil
  then show ?case by simp
next
  case (Cons opts tos)
  then show ?case
    by (auto simp: Tile_insert_with_tile_options_def split: prod.splits)
qed

lemma foldl_update_subset:
  "set (foldl (\<lambda>m (k, v). AList.update k v m) acc xs) \<subseteq> set acc \<union> set xs"
proof (induction xs arbitrary: acc)
  case Nil
  show ?case by simp
next
  case (Cons x xs)
  obtain k v where x: "x = (k, v)" by (cases x)
  have "set (AList.update k v acc) \<subseteq> set acc \<union> {(k, v)}"
    using in_update_cases [of _ _ k v acc] by auto
  with Cons [of "AList.update k v acc"] show ?case unfolding x by auto
qed

lemma foldl_update_keys:
  "fst ` set (foldl (\<lambda>m (k, v). AList.update k v m) acc xs) = fst ` set acc \<union> fst ` set xs"
proof (induction xs arbitrary: acc)
  case Nil
  show ?case by simp
next
  case (Cons x xs)
  obtain k v where x: "x = (k, v)" by (cases x)
  show ?case unfolding x by (auto simp: Cons dom_update)
qed

lemma select_multi_member:
  assumes "tid \<in> set tids" and "Tile_select w d tid = Some t"
  shows "t \<in> snd ` set (Tile_select_multi w d tids)"
  using assms by (force simp: Tile_select_multi_def)



end
